theory Spec2Isabelle
  imports Main
begin

section \<open>Python values, errors and string primitives\<close>

text \<open>
  The settings module of isort (\<^verbatim>\<open>isort/settings.py\<close>) is dynamically typed: a setting's value
  is a string, an integer, a boolean, \<^verbatim>\<open>None\<close>, a list, a tuple or a set of strings, the float
  infinity, a wrap-mode enumeration member, or (through \<^verbatim>\<open>getattr\<close>) an arbitrary attribute
  object. Text is modelled as ASCII \<^typ>\<open>string\<close>; the operating-system path module is the
  POSIX one (\<^verbatim>\<open>os.path.sep = "/"\<close>).
\<close>

datatype pyval =
    VNone
  | VBool bool
  | VInt int
  | VInf
  | VStr string
  | VList "string list"
  | VTuple "string list"
  | VSet "string list"
  | VWrapMode string
  | VObj string

text \<open>
  \<^const>\<open>VSet\<close> carries an enumeration of the set's distinct elements; the position of an
  element in it has no meaning. \<^const>\<open>VInf\<close> is \<^verbatim>\<open>float("inf")\<close>; \<^const>\<open>VObj\<close> is an opaque
  object (a method descriptor such as \<^verbatim>\<open>str.title\<close>), named by the expression that denotes it.
\<close>

datatype valmsg = PyVersionNotSupported string | InvalidLiteralForInt | InvalidTruthValue

datatype error =
    ValueError valmsg
  | TypeError
  | AttributeError
  | KeyError string
  | UnboundLocalError string
  | OverflowError
  | ReaderError string

datatype pytype = TNoneType | TBool | TInt | TFloat | TStr | TList | TTuple | TSet | TWrapModes | TObject

fun type_of :: "pyval \<Rightarrow> pytype" where
  "type_of VNone = TNoneType"
| "type_of (VBool _) = TBool"
| "type_of (VInt _) = TInt"
| "type_of VInf = TFloat"
| "type_of (VStr _) = TStr"
| "type_of (VList _) = TList"
| "type_of (VTuple _) = TTuple"
| "type_of (VSet _) = TSet"
| "type_of (VWrapMode _) = TWrapModes"
| "type_of (VObj _) = TObject"

text \<open>Python truthiness, as used by \<^verbatim>\<open>or\<close>, \<^verbatim>\<open>and\<close>, \<^verbatim>\<open>if\<close> and \<^verbatim>\<open>not\<close>.\<close>

fun truthy :: "pyval \<Rightarrow> bool" where
  "truthy VNone = False"
| "truthy (VBool b) = b"
| "truthy (VInt n) = (n \<noteq> 0)"
| "truthy VInf = True"
| "truthy (VStr s) = (s \<noteq> [])"
| "truthy (VList xs) = (xs \<noteq> [])"
| "truthy (VTuple xs) = (xs \<noteq> [])"
| "truthy (VSet xs) = (xs \<noteq> [])"
| "truthy (VWrapMode _) = True"
| "truthy (VObj _) = True"

subsection \<open>Strings\<close>

definition startswith :: "string \<Rightarrow> string \<Rightarrow> bool" where
  "startswith s p = (take (length p) s = p)"

definition endswith :: "string \<Rightarrow> string \<Rightarrow> bool" where
  "endswith s p = (length p \<le> length s \<and> drop (length s - length p) s = p)"

text \<open>\<^verbatim>\<open>s.replace(old, new)\<close> for a non-empty \<^verbatim>\<open>old\<close>: leftmost, non-overlapping occurrences.\<close>

function replace :: "string \<Rightarrow> string \<Rightarrow> string \<Rightarrow> string" where
  "replace [] old new = []"
| "replace (c # cs) old new =
     (if old \<noteq> [] \<and> take (length old) (c # cs) = old
      then new @ replace (drop (length old) (c # cs)) old new
      else c # replace cs old new)"
  by pat_completeness auto
termination
  by (relation "measure (\<lambda>(s, old, new). length s)") auto

definition is_upper :: "char \<Rightarrow> bool" where
  "is_upper c = (65 \<le> (of_char c :: nat) \<and> (of_char c :: nat) \<le> 90)"

definition lower_char :: "char \<Rightarrow> char" where
  "lower_char c = (if is_upper c then char_of ((of_char c :: nat) + 32) else c)"

definition lower :: "string \<Rightarrow> string" where
  "lower s = map lower_char s"

text \<open>The ASCII characters that \<^verbatim>\<open>str.strip()\<close> removes: codes 9 to 13, 28 to 31 and 32.\<close>

definition is_space :: "char \<Rightarrow> bool" where
  "is_space c = (let n = (of_char c :: nat) in (9 \<le> n \<and> n \<le> 13) \<or> (28 \<le> n \<and> n \<le> 32))"

definition lstrip_by :: "(char \<Rightarrow> bool) \<Rightarrow> string \<Rightarrow> string" where
  "lstrip_by P s = dropWhile P s"

definition rstrip_by :: "(char \<Rightarrow> bool) \<Rightarrow> string \<Rightarrow> string" where
  "rstrip_by P s = rev (dropWhile P (rev s))"

definition strip :: "string \<Rightarrow> string" where
  "strip s = rstrip_by is_space (lstrip_by is_space s)"

text \<open>\<^verbatim>\<open>s.strip(chars)\<close>: removes leading and trailing characters that occur in \<^verbatim>\<open>chars\<close>.\<close>

definition strip_chars :: "string \<Rightarrow> string \<Rightarrow> string" where
  "strip_chars s chars = rstrip_by (\<lambda>c. c \<in> set chars) (lstrip_by (\<lambda>c. c \<in> set chars) s)"

text \<open>\<^verbatim>\<open>s.split(sep)\<close> for a one-character separator: every piece, the empty ones included.\<close>

fun split_on :: "char \<Rightarrow> string \<Rightarrow> string list" where
  "split_on sep [] = [[]]"
| "split_on sep (c # cs) =
     (if c = sep then [] # split_on sep cs
      else (case split_on sep cs of p # ps \<Rightarrow> (c # p) # ps | [] \<Rightarrow> [[c]]))"

definition is_digit :: "char \<Rightarrow> bool" where
  "is_digit c = (48 \<le> (of_char c :: nat) \<and> (of_char c :: nat) \<le> 57)"

definition digit_val :: "char \<Rightarrow> nat" where
  "digit_val c = (of_char c :: nat) - 48"

definition isdigit :: "string \<Rightarrow> bool" where
  "isdigit s = (s \<noteq> [] \<and> list_all is_digit s)"

text \<open>
  The digits of a decimal literal after its first digit: \<^verbatim>\<open>int()\<close> accepts single underscores
  between digits.
\<close>

fun int_body :: "string \<Rightarrow> nat \<Rightarrow> nat option" where
  "int_body [] acc = Some acc"
| "int_body [c] acc = (if is_digit c then Some (10 * acc + digit_val c) else None)"
| "int_body (c # d # ds) acc =
     (if is_digit c then int_body (d # ds) (10 * acc + digit_val c)
      else if c = CHR ''_'' \<and> is_digit d then int_body ds (10 * acc + digit_val d)
      else None)"

definition unsigned_of_str :: "string \<Rightarrow> nat option" where
  "unsigned_of_str s =
     (case s of [] \<Rightarrow> None | d # ds \<Rightarrow> if is_digit d then int_body ds (digit_val d) else None)"

text \<open>
  The ASCII characters that \<^verbatim>\<open>int()\<close> skips around a literal: codes 9 to 13 and 32. Unlike
  \<^verbatim>\<open>str.strip()\<close> it does not skip the separators 28 to 31.
\<close>

definition is_int_space :: "char \<Rightarrow> bool" where
  "is_int_space c = (let n = (of_char c :: nat) in (9 \<le> n \<and> n \<le> 13) \<or> n = 32)"

text \<open>\<^verbatim>\<open>int(s)\<close> on text: surrounding whitespace, an optional sign, a decimal literal.\<close>

definition int_of_str :: "string \<Rightarrow> int option" where
  "int_of_str s =
     (case rstrip_by is_int_space (lstrip_by is_int_space s) of
        [] \<Rightarrow> None
      | c # cs \<Rightarrow>
          if c = CHR ''-'' then map_option (\<lambda>n. - int n) (unsigned_of_str cs)
          else if c = CHR ''+'' then map_option int (unsigned_of_str cs)
          else map_option int (unsigned_of_str (c # cs)))"

definition digit_char :: "nat \<Rightarrow> char" where
  "digit_char n = char_of (48 + n)"

function str_of_nat :: "nat \<Rightarrow> string" where
  "str_of_nat n = (if n < 10 then [digit_char n] else str_of_nat (n div 10) @ [digit_char (n mod 10)])"
  by pat_completeness auto
termination
  by (relation "measure id") auto

declare str_of_nat.simps [simp del]

definition str_of_int :: "int \<Rightarrow> string" where
  "str_of_int i = (if i < 0 then CHR ''-'' # str_of_nat (nat (- i)) else str_of_nat (nat i))"

subsection \<open>POSIX path functions\<close>

text \<open>\<^verbatim>\<open>os.path.join(a, b)\<close> for two components.\<close>

definition path_join :: "string \<Rightarrow> string \<Rightarrow> string" where
  "path_join a b =
     (if startswith b ''/'' then b
      else if a = [] \<or> endswith a ''/'' then a @ b
      else a @ ''/'' @ b)"

text \<open>
  \<^verbatim>\<open>os.path.split(p)\<close>: the text up to and including the last slash, and the rest; trailing
  slashes are stripped from the head unless it consists of slashes only.
\<close>

definition path_split :: "string \<Rightarrow> string \<times> string" where
  "path_split p =
     (let tail = rev (takeWhile (\<lambda>c. c \<noteq> CHR ''/'') (rev p));
          head = rev (dropWhile (\<lambda>c. c \<noteq> CHR ''/'') (rev p))
      in (if head \<noteq> [] \<and> head \<noteq> replicate (length head) CHR ''/''
          then rstrip_by (\<lambda>c. c = CHR ''/'') head else head, tail))"

definition dirname :: "string \<Rightarrow> string" where
  "dirname p = fst (path_split p)"

definition basename :: "string \<Rightarrow> string" where
  "basename p = snd (path_split p)"

section \<open>The environment\<close>

text \<open>
  What the module takes from the interpreter, the operating system and the packages it imports.
  \<^item> \<open>sys_version\<close>: \<^verbatim>\<open>sys.version_info.major\<close> and \<^verbatim>\<open>.minor\<close>.
  \<^item> \<open>stdlibs\<close>: the attributes of the package \<^verbatim>\<open>isort.stdlibs\<close> in \<^verbatim>\<open>dir()\<close> order, each with the
    elements of its \<^verbatim>\<open>stdlib\<close> set.
  \<^item> \<open>appdirs_config\<close>: \<^verbatim>\<open>appdirs.user_config_dir("isort.cfg")\<close>, or \<open>None\<close> when the package
    \<^verbatim>\<open>appdirs\<close> cannot be imported.
  \<^item> \<open>expanduser\<close>, \<open>path_exists\<close>, \<open>isfile\<close>, \<open>isdir\<close>, \<open>islink\<close>, \<open>abspath\<close>: the functions of
    \<^verbatim>\<open>os.path\<close> and \<^verbatim>\<open>posixpath\<close> that read the file system, the home directory or the working
    directory.
  \<^item> \<open>fnmatch\<close>: \<^verbatim>\<open>fnmatch.fnmatch\<close>.
  \<^item> \<open>get_config_data\<close>: the format readers behind \<^verbatim>\<open>_get_config_data(file_path, sections)\<close>
    (configparser, toml): the raw settings of a file as key/value pairs in the order of the
    dictionary, or the error the reader raises.
  \<^item> \<open>type_attr\<close>: \<^verbatim>\<open>getattr(t, name)\<close> for a built-in type \<open>t\<close>, \<open>None\<close> when there is no such
    attribute; \<open>conv_attr\<close>: the same for the function object \<^verbatim>\<open>wrap_mode_from_string\<close>.
  \<^item> \<open>wrap_mode_from_string\<close>: \<^verbatim>\<open>isort.wrap_modes.from_string\<close>.
  \<^item> \<open>repr\<close>: \<^verbatim>\<open>str(v)\<close> for a value that is not text, a number, a boolean or \<^verbatim>\<open>None\<close>.
  \<^item> \<open>set_iter\<close>: the order in which the interpreter iterates over a set with the given
    elements (it depends on the hashes); \<^verbatim>\<open>list(s)\<close> is \<open>set_iter\<close> of the elements of \<open>s\<close>.
\<close>

record env =
  sys_version :: "nat \<times> nat"
  stdlibs :: "(string \<times> string list) list"
  appdirs_config :: "string option"
  expanduser :: "string \<Rightarrow> string"
  path_exists :: "string \<Rightarrow> bool"
  isfile :: "string \<Rightarrow> bool"
  isdir :: "string \<Rightarrow> bool"
  islink :: "string \<Rightarrow> bool"
  abspath :: "string \<Rightarrow> string"
  fnmatch :: "string \<Rightarrow> string \<Rightarrow> bool"
  get_config_data :: "string \<Rightarrow> string list \<Rightarrow> error + (string \<times> pyval) list"
  type_attr :: "pytype \<Rightarrow> string \<Rightarrow> pyval option"
  conv_attr :: "string \<Rightarrow> pyval option"
  wrap_mode_from_string :: "pyval \<Rightarrow> error + pyval"
  repr :: "pyval \<Rightarrow> string"
  set_iter :: "string list \<Rightarrow> string list"

text \<open>Sequencing of computations that may raise.\<close>

definition ebind :: "error + 'a \<Rightarrow> ('a \<Rightarrow> error + 'b) \<Rightarrow> error + 'b" where
  "ebind m f = (case m of Inl e \<Rightarrow> Inl e | Inr x \<Rightarrow> f x)"

text \<open>\<^verbatim>\<open>str(v)\<close>.\<close>

fun py_str :: "env \<Rightarrow> pyval \<Rightarrow> string" where
  "py_str E VNone = ''None''"
| "py_str E (VBool b) = (if b then ''True'' else ''False'')"
| "py_str E (VInt n) = str_of_int n"
| "py_str E VInf = ''inf''"
| "py_str E (VStr s) = s"
| "py_str E v = repr E v"

text \<open>\<^verbatim>\<open>int(v)\<close>.\<close>

fun py_int :: "pyval \<Rightarrow> error + int" where
  "py_int (VStr s) =
     (case int_of_str s of Some n \<Rightarrow> Inr n | None \<Rightarrow> Inl (ValueError InvalidLiteralForInt))"
| "py_int (VInt n) = Inr n"
| "py_int (VBool b) = Inr (if b then 1 else 0)"
| "py_int VInf = Inl OverflowError"
| "py_int v = Inl TypeError"

text \<open>
  The elements of \<^verbatim>\<open>set(v)\<close>, as an enumeration without repetition; iterating over text gives
  its characters, and a value that is not iterable raises \<^verbatim>\<open>TypeError\<close>.
\<close>

fun set_of :: "pyval \<Rightarrow> error + string list" where
  "set_of (VList xs) = Inr (remdups xs)"
| "set_of (VTuple xs) = Inr (remdups xs)"
| "set_of (VSet xs) = Inr xs"
| "set_of (VStr s) = Inr (remdups (map (\<lambda>c. [c]) s))"
| "set_of v = Inl TypeError"

text \<open>\<^verbatim>\<open>distutils.util.strtobool\<close>, on a value that may not be text.\<close>

definition strtobool :: "pyval \<Rightarrow> error + int" where
  "strtobool v =
     (case v of
        VStr s \<Rightarrow>
          (let val = lower s in
           if val \<in> set [''y'', ''yes'', ''t'', ''true'', ''on'', ''1''] then Inr 1
           else if val \<in> set [''n'', ''no'', ''f'', ''false'', ''off'', ''0''] then Inr 0
           else Inl (ValueError InvalidTruthValue))
      | _ \<Rightarrow> Inl AttributeError)"

section \<open>The Default Table\<close>

definition MAX_CONFIG_SEARCH_DEPTH :: nat where
  "MAX_CONFIG_SEARCH_DEPTH = 25"

definition DEFAULT_SECTIONS :: "string list" where
  "DEFAULT_SECTIONS = [''FUTURE'', ''STDLIB'', ''THIRDPARTY'', ''FIRSTPARTY'', ''LOCALFOLDER'']"

text \<open>The dictionary \<^verbatim>\<open>default\<close>, in the order of the source.\<close>

definition default_items :: "(string \<times> pyval) list" where
  "default_items =
   [(''force_to_top'', VList []),
    (''skip'', VList []),
    (''skip_glob'', VList []),
    (''line_length'', VInt 79),
    (''wrap_length'', VInt 0),
    (''line_ending'', VNone),
    (''sections'', VTuple DEFAULT_SECTIONS),
    (''no_sections'', VBool False),
    (''known_future_library'', VList [''__future__'']),
    (''known_third_party'', VList [''google.appengine.api'']),
    (''known_first_party'', VList []),
    (''multi_line_output'', VWrapMode ''GRID''),
    (''forced_separate'', VList []),
    (''indent'', VStr ''    ''),
    (''comment_prefix'', VStr ''  #''),
    (''length_sort'', VBool False),
    (''add_imports'', VList []),
    (''remove_imports'', VList []),
    (''reverse_relative'', VBool False),
    (''force_single_line'', VBool False),
    (''default_section'', VStr ''FIRSTPARTY''),
    (''import_heading_future'', VStr []),
    (''import_heading_stdlib'', VStr []),
    (''import_heading_thirdparty'', VStr []),
    (''import_heading_firstparty'', VStr []),
    (''import_heading_localfolder'', VStr []),
    (''balanced_wrapping'', VBool False),
    (''use_parentheses'', VBool False),
    (''order_by_type'', VBool True),
    (''atomic'', VBool False),
    (''lines_after_imports'', VInt (- 1)),
    (''lines_between_sections'', VInt 1),
    (''lines_between_types'', VInt 0),
    (''combine_as_imports'', VBool False),
    (''combine_star'', VBool False),
    (''keep_direct_and_as_imports'', VBool False),
    (''include_trailing_comma'', VBool False),
    (''from_first'', VBool False),
    (''verbose'', VBool False),
    (''quiet'', VBool False),
    (''force_adds'', VBool False),
    (''force_alphabetical_sort_within_sections'', VBool False),
    (''force_alphabetical_sort'', VBool False),
    (''force_grid_wrap'', VInt 0),
    (''force_sort_within_sections'', VBool False),
    (''show_diff'', VBool False),
    (''ignore_whitespace'', VBool False),
    (''no_lines_before'', VList []),
    (''no_inline_sort'', VBool False),
    (''ignore_comments'', VBool False),
    (''safety_excludes'', VBool True),
    (''case_sensitive'', VBool False)]"

type_synonym settings = "string \<rightharpoonup> pyval"

definition default :: settings where
  "default = map_of default_items"

text \<open>\<^verbatim>\<open>d.get(key)\<close>: the value, or \<^verbatim>\<open>None\<close> for a missing key.\<close>

definition dict_get :: "settings \<Rightarrow> string \<Rightarrow> pyval" where
  "dict_get d key = (case d key of None \<Rightarrow> VNone | Some v \<Rightarrow> v)"

text \<open>\<^verbatim>\<open>d[key]\<close>: the value, or \<^verbatim>\<open>KeyError\<close>.\<close>

definition dict_item :: "settings \<Rightarrow> string \<Rightarrow> error + pyval" where
  "dict_item d key = (case d key of None \<Rightarrow> Inl (KeyError key) | Some v \<Rightarrow> Inr v)"

section \<open>The settings merger\<close>

text \<open>
  The converter of a setting: the type of its default value (text for a key that the table
  does not have), with \<^verbatim>\<open>wrap_mode_from_string\<close> in the place of the wrap-mode enumeration.
\<close>

datatype converter = ConvType pytype | ConvWrapMode

definition get_str_to_type_converter :: "string \<Rightarrow> converter" where
  "get_str_to_type_converter setting_name =
     (let type_converter = type_of (case default setting_name of None \<Rightarrow> VStr [] | Some v \<Rightarrow> v)
      in if type_converter = TWrapModes then ConvWrapMode else ConvType type_converter)"

text \<open>\<^verbatim>\<open>_as_list\<close>; a value that is neither a list nor text has no \<^verbatim>\<open>replace\<close>.\<close>

definition as_list :: "pyval \<Rightarrow> error + string list" where
  "as_list v =
     (case v of
        VList xs \<Rightarrow> Inr (map strip xs)
      | VStr s \<Rightarrow>
          Inr (map strip (filter (\<lambda>item. strip item \<noteq> [])
                 (split_on CHR '','' (replace s [CHR 0x0A] '',''))))
      | _ \<Rightarrow> Inl AttributeError)"

definition abspaths :: "string \<Rightarrow> string list \<Rightarrow> string list" where
  "abspaths cwd values =
     map (\<lambda>v. if \<not> startswith v ''/'' \<and> endswith v ''/'' then path_join cwd v else v) values"

text \<open>
  Modelled from the spec: the helpers \<^verbatim>\<open>difference\<close> and \<^verbatim>\<open>union\<close> of \<^verbatim>\<open>isort.utils\<close>, which are
  not among the sources. The spec has "result = existing set minus parsed list (set difference)"
  and "result = union(existing set, parsed list)" for a list-typed setting whose element order is
  irrelevant: a list of the elements, in the order the set iterates.
\<close>

definition difference :: "env \<Rightarrow> string list \<Rightarrow> string list \<Rightarrow> pyval" where
  "difference E a b = VList (set_iter E (filter (\<lambda>x. x \<notin> set b) a))"

definition union :: "env \<Rightarrow> string list \<Rightarrow> string list \<Rightarrow> pyval" where
  "union E a b = VList (set_iter E (a @ filter (\<lambda>x. x \<notin> set a) (remdups b)))"

text \<open>Calling a converter on a raw value: \<^verbatim>\<open>str(v)\<close>, \<^verbatim>\<open>int(v)\<close>, \<^verbatim>\<open>NoneType(v)\<close>, and so on.\<close>

definition call_converter :: "env \<Rightarrow> converter \<Rightarrow> pyval \<Rightarrow> error + pyval" where
  "call_converter E conv v =
     (case conv of
        ConvWrapMode \<Rightarrow> wrap_mode_from_string E v
      | ConvType TStr \<Rightarrow> Inr (VStr (py_str E v))
      | ConvType TInt \<Rightarrow> ebind (py_int v) (\<lambda>n. Inr (VInt n))
      | ConvType _ \<Rightarrow> Inl TypeError)"

text \<open>\<^verbatim>\<open>getattr(converter, name, None)\<close>.\<close>

definition getattr_converter :: "env \<Rightarrow> converter \<Rightarrow> string \<Rightarrow> pyval" where
  "getattr_converter E conv name =
     (case (case conv of ConvWrapMode \<Rightarrow> conv_attr E name | ConvType t \<Rightarrow> type_attr E t name) of
        None \<Rightarrow> VNone
      | Some a \<Rightarrow> a)"

text \<open>
  The body of the loop of \<^verbatim>\<open>_update_with_config_file\<close>: one key of the raw settings merged
  into the accumulator \<open>computed_settings\<close>.
\<close>

definition merge_key :: "env \<Rightarrow> string \<Rightarrow> settings \<Rightarrow> string \<times> pyval \<Rightarrow> error + settings" where
  "merge_key E cwd computed_settings kv =
     (let key = fst kv; value = snd kv;
          access_key = lower (replace key ''not_'' []);
          existing_value_type = get_str_to_type_converter access_key
      in
      if existing_value_type = ConvType TList \<or> existing_value_type = ConvType TTuple then
        (if access_key = ''sections'' then
           ebind (as_list value) (\<lambda>xs. Inr (computed_settings(access_key \<mapsto> VTuple xs)))
         else
           ebind (set_of (case computed_settings access_key of
                            None \<Rightarrow> dict_get default access_key | Some v \<Rightarrow> v)) (\<lambda>existing_data.
           ebind (as_list value) (\<lambda>xs.
             if startswith key ''not_'' then
               Inr (computed_settings(access_key \<mapsto> difference E existing_data xs))
             else if startswith key ''known_'' then
               Inr (computed_settings(access_key \<mapsto> union E existing_data (abspaths cwd xs)))
             else
               Inr (computed_settings(access_key \<mapsto> union E existing_data xs)))))
      else if existing_value_type = ConvType TBool then
        (case value of
           VBool b \<Rightarrow> Inr (computed_settings(access_key \<mapsto> VBool b))
         | _ \<Rightarrow> ebind (strtobool value) (\<lambda>n. Inr (computed_settings(access_key \<mapsto> VBool (n \<noteq> 0)))))
      else if startswith key ''known_'' then
        ebind (as_list value) (\<lambda>xs. Inr (computed_settings(access_key \<mapsto> VList (abspaths cwd xs))))
      else if key = ''force_grid_wrap'' then
        (case call_converter E existing_value_type value of
           Inr result \<Rightarrow> Inr (computed_settings(access_key \<mapsto> result))
         | Inl (ValueError m) \<Rightarrow>
             (case value of
                VStr s \<Rightarrow>
                  (if strip (lower s) = ''false'' then
                     Inr (computed_settings(access_key \<mapsto> dict_get default access_key))
                   else Inr (computed_settings(access_key \<mapsto> VInt 2)))
              | _ \<Rightarrow> Inl AttributeError)
         | Inl e \<Rightarrow> Inl e)
      else
        (let attr = getattr_converter E existing_value_type (py_str E value) in
         if truthy attr then Inr (computed_settings(access_key \<mapsto> attr))
         else ebind (call_converter E existing_value_type value)
                (\<lambda>v. Inr (computed_settings(access_key \<mapsto> v)))))"

text \<open>The loop of \<^verbatim>\<open>_update_with_config_file\<close>; an error ends it.\<close>

fun merge_keys :: "env \<Rightarrow> string \<Rightarrow> settings \<Rightarrow> (string \<times> pyval) list \<Rightarrow> error + settings" where
  "merge_keys E cwd computed_settings [] = Inr computed_settings"
| "merge_keys E cwd computed_settings (kv # rest) =
     (case merge_key E cwd computed_settings kv of
        Inl e \<Rightarrow> Inl e
      | Inr computed_settings' \<Rightarrow> merge_keys E cwd computed_settings' rest)"

text \<open>\<^verbatim>\<open>settings.pop(key, "").strip()\<close>: the stripped text and the remaining settings.\<close>

definition pop_strip :: "(string \<times> pyval) list \<Rightarrow> string \<Rightarrow> error + string \<times> (string \<times> pyval) list" where
  "pop_strip settings key =
     (case map_of settings key of
        None \<Rightarrow> Inr ([], settings)
      | Some (VStr s) \<Rightarrow> Inr (strip s, filter (\<lambda>kv. fst kv \<noteq> key) settings)
      | Some _ \<Rightarrow> Inl AttributeError)"

text \<open>\<^verbatim>\<open>indent_size and int(indent_size) or d\<close>.\<close>

definition size_or :: "string \<Rightarrow> int \<Rightarrow> error + int" where
  "size_or indent_size d =
     (if indent_size = [] then Inr d
      else (case int_of_str indent_size of
              None \<Rightarrow> Inl (ValueError InvalidLiteralForInt)
            | Some n \<Rightarrow> Inr (if n \<noteq> 0 then n else d)))"

text \<open>The four keys of an editor-style file that are taken out before the generic merge.\<close>

definition editorconfig_keys ::
  "(string \<times> pyval) list \<Rightarrow> settings \<Rightarrow> error + (string \<times> pyval) list \<times> settings" where
  "editorconfig_keys settings0 computed_settings =
     ebind (pop_strip settings0 ''indent_style'') (\<lambda>(indent_style, settings1).
     ebind (pop_strip settings1 ''indent_size'') (\<lambda>(indent_size0, settings2).
     ebind (if indent_size0 = ''tab'' then pop_strip settings2 ''tab_width''
            else Inr (indent_size0, settings2)) (\<lambda>(indent_size, settings3).
     ebind (if indent_style = ''space'' then
              ebind (size_or indent_size 4) (\<lambda>n.
                Inr (computed_settings(''indent'' \<mapsto> VStr (replicate (nat n) CHR '' ''))))
            else if indent_style = ''tab'' then
              ebind (size_or indent_size 1) (\<lambda>n.
                Inr (computed_settings(''indent'' \<mapsto> VStr (replicate (nat n) (CHR 0x09)))))
            else Inr computed_settings) (\<lambda>computed1.
     ebind (pop_strip settings3 ''max_line_length'') (\<lambda>(max_line_length, settings4).
       if max_line_length \<noteq> [] then
         (if max_line_length = ''off'' then Inr (settings4, computed1(''line_length'' \<mapsto> VInf))
          else (case int_of_str max_line_length of
                  None \<Rightarrow> Inl (ValueError InvalidLiteralForInt)
                | Some n \<Rightarrow> Inr (settings4, computed1(''line_length'' \<mapsto> VInt n))))
       else Inr (settings4, computed1))))))"

definition update_with_config_file :: "env \<Rightarrow> string \<Rightarrow> string list \<Rightarrow> settings \<Rightarrow> error + settings" where
  "update_with_config_file E file_path sections computed_settings =
     (let cwd = dirname file_path in
      ebind (get_config_data E file_path sections) (\<lambda>settings.
        if settings = [] then Inr computed_settings
        else
          ebind (if endswith file_path ''.editorconfig''
                 then editorconfig_keys settings computed_settings
                 else Inr (settings, computed_settings)) (\<lambda>(settings', computed').
            merge_keys E cwd computed' settings')))"

section \<open>The config file locator\<close>

text \<open>The first loop of \<^verbatim>\<open>_update_settings_with_config\<close>: the first fallback path that exists.\<close>

fun first_existing :: "env \<Rightarrow> string list \<Rightarrow> string option" where
  "first_existing E [] = None"
| "first_existing E (potential_settings_path # rest) =
     (let expanded = expanduser E potential_settings_path
      in if path_exists E expanded then Some expanded else first_existing E rest)"

text \<open>
  The second loop: the walk from \<open>current_directory\<close> upward. \<open>editor_config_file\<close> is the
  candidate so far, which the loop returns unless it finds a file.
\<close>

function walk_up :: "env \<Rightarrow> string \<Rightarrow> string \<Rightarrow> nat \<Rightarrow> string option \<Rightarrow> string option" where
  "walk_up E name current_directory tries editor_config_file =
     (if current_directory \<noteq> [] \<and> tries < MAX_CONFIG_SEARCH_DEPTH then
        (let potential_path = path_join current_directory name in
         if path_exists E potential_path then Some potential_path
         else
           (let new_directory = fst (path_split current_directory) in
            if current_directory = new_directory then editor_config_file
            else walk_up E name new_directory (tries + 1) editor_config_file))
      else editor_config_file)"
  by pat_completeness auto
termination
  by (relation "measure (\<lambda>(E, name, d, tries, f). MAX_CONFIG_SEARCH_DEPTH - tries)") auto

declare walk_up.simps [simp del]

definition locate :: "env \<Rightarrow> string \<Rightarrow> string \<Rightarrow> string list \<Rightarrow> string option" where
  "locate E path name default_paths = walk_up E name path 0 (first_existing E default_paths)"

definition update_settings_with_config ::
  "env \<Rightarrow> string \<Rightarrow> string \<Rightarrow> string list \<Rightarrow> string list \<Rightarrow> settings \<Rightarrow> error + settings" where
  "update_settings_with_config E path name default_paths sections computed_settings =
     (case locate E path name default_paths of
        None \<Rightarrow> Inr computed_settings
      | Some editor_config_file \<Rightarrow>
          if editor_config_file \<noteq> [] \<and> path_exists E editor_config_file
          then update_with_config_file E editor_config_file sections computed_settings
          else Inr computed_settings)"

text \<open>
  The directories that the walk visits, after the spec's words: the start path and its
  parents in turn, at most \<open>n\<close> of them, none after a directory whose parent is itself, and
  none at all from an empty path.
\<close>

fun search_directories :: "nat \<Rightarrow> string \<Rightarrow> string list" where
  "search_directories 0 d = []"
| "search_directories (Suc n) d =
     (if d = [] then []
      else d # (if fst (path_split d) = d then [] else search_directories n (fst (path_split d))))"

section \<open>Version resolution and the resolution from a path\<close>

definition VALID_PY_TARGETS :: "env \<Rightarrow> string list" where
  "VALID_PY_TARGETS E =
     map (\<lambda>target. replace target ''py'' [])
       (filter (\<lambda>target. \<not> startswith target ''_'') (map fst (stdlibs E)))"

text \<open>The text of \<^verbatim>\<open>f"{sys.version_info.major}{sys.version_info.minor}"\<close>.\<close>

definition interpreter_version :: "env \<Rightarrow> string" where
  "interpreter_version E = str_of_nat (fst (sys_version E)) @ str_of_nat (snd (sys_version E))"

text \<open>
  The selector of \<^verbatim>\<open>_get_default\<close> after its first two statements:
  \<^verbatim>\<open>py_version or "3"\<close>, then \<^verbatim>\<open>"auto"\<close> replaced by the interpreter's version.
\<close>

definition normalize_version :: "env \<Rightarrow> pyval \<Rightarrow> pyval" where
  "normalize_version E py_version =
     (let py_version1 = (if truthy py_version then py_version else VStr ''3'')
      in if py_version1 = VStr ''auto'' then VStr (interpreter_version E) else py_version1)"

definition get_default :: "env \<Rightarrow> pyval \<Rightarrow> error + settings" where
  "get_default E py_version =
     (case normalize_version E py_version of
        VStr v \<Rightarrow>
          if v \<notin> set (VALID_PY_TARGETS E) then Inl (ValueError (PyVersionNotSupported v))
          else
            (let attr = (if v \<noteq> ''all'' then ''py'' @ v else v) in
             case map_of (stdlibs E) attr of
               None \<Rightarrow> Inl AttributeError
             | Some stdlib \<Rightarrow> Inr (default(''known_standard_library'' \<mapsto> VSet stdlib)))
      | other \<Rightarrow> Inl (ValueError (PyVersionNotSupported (py_str E other))))"

text \<open>The fallback locations of \<^verbatim>\<open>.isort.cfg\<close>, with the one of \<^verbatim>\<open>appdirs\<close> first when there is one.\<close>

definition isort_defaults :: "env \<Rightarrow> string list" where
  "isort_defaults E =
     (case appdirs_config E of
        None \<Rightarrow> [''~/.isort.cfg'']
      | Some d \<Rightarrow> [d] @ [''~/.isort.cfg''])"

definition from_path :: "env \<Rightarrow> string \<Rightarrow> pyval \<Rightarrow> error + settings" where
  "from_path E path py_version =
     ebind (get_default E py_version) (\<lambda>computed0.
       ebind (update_settings_with_config E path ''.editorconfig'' [''~/.editorconfig'']
                [''*'', ''*.py'', ''**.py''] computed0) (\<lambda>computed1.
       ebind (update_settings_with_config E path ''pyproject.toml'' []
                [''tool.isort''] computed1) (\<lambda>computed2.
       ebind (update_settings_with_config E path ''.isort.cfg'' (isort_defaults E)
                [''settings'', ''isort''] computed2) (\<lambda>computed3.
       ebind (update_settings_with_config E path ''setup.cfg'' []
                [''isort'', ''tool:isort''] computed3) (\<lambda>computed4.
       update_settings_with_config E path ''tox.ini'' []
                [''isort'', ''tool:isort''] computed4)))))"

subsection \<open>The memoizing decorator\<close>

text \<open>
  \<^verbatim>\<open>functools.lru_cache()\<close> around \<^verbatim>\<open>from_path\<close>: at most 128 entries, the most recently used
  first, with the counters that \<^verbatim>\<open>cache_info()\<close> reports. A key that cannot be hashed raises
  \<^verbatim>\<open>TypeError\<close>; a call that raises stores nothing.
\<close>

record cache =
  entries :: "((string \<times> pyval) \<times> settings) list"
  hits :: nat
  misses :: nat

definition empty_cache :: cache where
  "empty_cache = \<lparr>entries = [], hits = 0, misses = 0\<rparr>"

definition hashable :: "pyval \<Rightarrow> bool" where
  "hashable v = (case v of VList _ \<Rightarrow> False | VSet _ \<Rightarrow> False | _ \<Rightarrow> True)"

definition from_path_cached ::
  "env \<Rightarrow> cache \<Rightarrow> string \<Rightarrow> pyval \<Rightarrow> (error + settings) \<times> cache" where
  "from_path_cached E c path py_version =
     (if \<not> hashable py_version then (Inl TypeError, c)
      else
        (case map_of (entries c) (path, py_version) of
           Some result \<Rightarrow>
             (Inr result,
              c\<lparr>entries := ((path, py_version), result)
                   # filter (\<lambda>e. fst e \<noteq> (path, py_version)) (entries c),
                hits := hits c + 1\<rparr>)
         | None \<Rightarrow>
             (case from_path E path py_version of
                Inl e \<Rightarrow> (Inl e, c\<lparr>misses := misses c + 1\<rparr>)
              | Inr result \<Rightarrow>
                  (Inr result,
                   c\<lparr>entries := take 128 (((path, py_version), result) # entries c),
                     misses := misses c + 1\<rparr>))))"

section \<open>The override applicator\<close>

text \<open>The body of the loop of \<^verbatim>\<open>prepare_config\<close>: one override applied to \<open>config\<close>.\<close>

definition override_key :: "env \<Rightarrow> settings \<Rightarrow> string \<times> pyval \<Rightarrow> error + settings" where
  "override_key E config kv =
     (let key = fst kv; value = snd kv;
          access_key = lower (replace key ''not_'' [])
      in
      if access_key \<noteq> ''sections''
         \<and> type_of (dict_get config access_key) \<in> set [TList, TTuple, TSet] then
        ebind (set_of (dict_get config access_key)) (\<lambda>current.
        ebind (set_of value) (\<lambda>vs.
          if startswith key ''not_'' then
            Inr (config(access_key \<mapsto> VList (set_iter E (filter (\<lambda>x. x \<notin> set vs) current))))
          else
            Inr (config(access_key \<mapsto>
                   VList (set_iter E (current @ filter (\<lambda>x. x \<notin> set current) vs))))))
      else Inr (config(key \<mapsto> value)))"

fun override_keys :: "env \<Rightarrow> settings \<Rightarrow> (string \<times> pyval) list \<Rightarrow> error + settings" where
  "override_keys E config [] = Inr config"
| "override_keys E config (kv # rest) =
     (case override_key E config kv of
        Inl e \<Rightarrow> Inl e
      | Inr config' \<Rightarrow> override_keys E config' rest)"

text \<open>The expansion of the compound flag \<^verbatim>\<open>force_alphabetical_sort\<close>.\<close>

definition expand_force_alphabetical_sort :: "settings \<Rightarrow> error + settings" where
  "expand_force_alphabetical_sort config =
     ebind (dict_item config ''force_alphabetical_sort'') (\<lambda>flag.
       if truthy flag then
         Inr (config(''force_alphabetical_sort_within_sections'' \<mapsto> VBool True,
                     ''no_sections'' \<mapsto> VBool True,
                     ''lines_between_types'' \<mapsto> VInt 1,
                     ''from_first'' \<mapsto> VBool True))
       else Inr config)"

text \<open>The post-processing of \<^verbatim>\<open>indent\<close> and \<^verbatim>\<open>comment_prefix\<close>.\<close>

definition prepare_indent :: "env \<Rightarrow> settings \<Rightarrow> error + settings" where
  "prepare_indent E config =
     ebind (dict_item config ''indent'') (\<lambda>v.
       let indent = py_str E v in
       if isdigit indent then
         (case int_of_str indent of
            None \<Rightarrow> Inl (ValueError InvalidLiteralForInt)
          | Some n \<Rightarrow> Inr (config(''indent'' \<mapsto> VStr (replicate (nat n) CHR '' ''))))
       else
         (let indent1 = strip_chars (strip_chars indent [CHR 0x27]) [CHR 0x22]
          in Inr (config(''indent'' \<mapsto>
                    VStr (if lower indent1 = ''tab'' then [CHR 0x09] else indent1)))))"

definition prepare_comment_prefix :: "settings \<Rightarrow> error + settings" where
  "prepare_comment_prefix config =
     ebind (dict_item config ''comment_prefix'') (\<lambda>v.
       case v of
         VStr s \<Rightarrow>
           Inr (config(''comment_prefix'' \<mapsto>
                  VStr (strip_chars (strip_chars s [CHR 0x27]) [CHR 0x22])))
       | _ \<Rightarrow> Inl AttributeError)"

text \<open>
  \<^verbatim>\<open>prepare_config(settings_path, **setting_overrides)\<close>: the keyword arguments are the pairs
  of \<open>setting_overrides\<close>, in the order of the call.
\<close>

definition prepare_config ::
  "env \<Rightarrow> cache \<Rightarrow> string \<Rightarrow> (string \<times> pyval) list \<Rightarrow> (error + settings) \<times> cache" where
  "prepare_config E c settings_path setting_overrides =
     (let py_version = (case map_of setting_overrides ''py_version'' of
                          None \<Rightarrow> VNone | Some v \<Rightarrow> v);
          overrides = filter (\<lambda>kv. fst kv \<noteq> ''py_version'') setting_overrides;
          r = from_path_cached E c settings_path py_version
      in (ebind (fst r) (\<lambda>config0.
          ebind (override_keys E config0 overrides) (\<lambda>config1.
          ebind (expand_force_alphabetical_sort config1) (\<lambda>config2.
          ebind (prepare_indent E config2) (\<lambda>config3.
          prepare_comment_prefix config3)))), snd r))"

section \<open>The skip predicate\<close>

text \<open>
  \<^verbatim>\<open>safety_exclude_re\<close> is a slash, one of thirteen literal names or
  \<^verbatim>\<open>lib/python[0-9].[0-9]+\<close>, and a slash. \<open>lib_python_match s\<close> holds when the versioned
  alternative and the closing slash match at the start of \<open>s\<close>: a digit, any character but a
  newline, one or more digits, a slash.
\<close>

definition safety_exclude_names :: "string list" where
  "safety_exclude_names =
     [''.eggs'', ''.git'', ''.hg'', ''.mypy_cache'', ''.nox'', ''.tox'', ''.venv'', ''_build'',
      ''buck-out'', ''build'', ''dist'', ''.pants.d'', ''node_modules'']"

definition lib_python_match :: "string \<Rightarrow> bool" where
  "lib_python_match s =
     (startswith s ''lib/python'' \<and>
      (case drop 10 s of
         d # c # rest \<Rightarrow>
           is_digit d \<and> c \<noteq> CHR 0x0A \<and> takeWhile is_digit rest \<noteq> []
           \<and> startswith (dropWhile is_digit rest) ''/''
       | _ \<Rightarrow> False))"

definition safety_exclude_match :: "string \<Rightarrow> bool" where
  "safety_exclude_match s =
     (case s of
        [] \<Rightarrow> False
      | c # r \<Rightarrow>
          c = CHR ''/'' \<and>
          (list_ex (\<lambda>n. startswith r (n @ ''/'')) safety_exclude_names \<or> lib_python_match r))"

text \<open>\<^verbatim>\<open>safety_exclude_re.search(s)\<close>: a match at some position of \<open>s\<close>.\<close>

fun safety_exclude_search :: "string \<Rightarrow> bool" where
  "safety_exclude_search [] = False"
| "safety_exclude_search (c # cs) =
     (safety_exclude_match (c # cs) \<or> safety_exclude_search cs)"

declare safety_exclude_search.simps [simp del]

text \<open>\<^verbatim>\<open>x in s\<close> for two texts: \<open>x\<close> occurs in \<open>s\<close>.\<close>

fun occurs_in :: "string \<Rightarrow> string \<Rightarrow> bool" where
  "occurs_in x [] = (x = [])"
| "occurs_in x (c # cs) = (startswith (c # cs) x \<or> occurs_in x cs)"

text \<open>The items of \<^verbatim>\<open>for item in v\<close>, and \<^verbatim>\<open>x in v\<close>, for the value of a list-typed setting.\<close>

definition items_of :: "env \<Rightarrow> pyval \<Rightarrow> error + string list" where
  "items_of E v =
     (case v of
        VList xs \<Rightarrow> Inr xs
      | VTuple xs \<Rightarrow> Inr xs
      | VSet xs \<Rightarrow> Inr (set_iter E xs)
      | VStr s \<Rightarrow> Inr (map (\<lambda>c. [c]) s)
      | _ \<Rightarrow> Inl TypeError)"

definition py_in :: "string \<Rightarrow> pyval \<Rightarrow> error + bool" where
  "py_in x v =
     (case v of
        VList xs \<Rightarrow> Inr (x \<in> set xs)
      | VTuple xs \<Rightarrow> Inr (x \<in> set xs)
      | VSet xs \<Rightarrow> Inr (x \<in> set xs)
      | VStr s \<Rightarrow> Inr (occurs_in x s)
      | _ \<Rightarrow> Inl TypeError)"

lemma path_split_length:
  "length (fst (path_split p)) + length (snd (path_split p)) \<le> length p"
proof -
  let ?t = "takeWhile (\<lambda>c. c \<noteq> CHR ''/'') (rev p)"
  let ?h = "dropWhile (\<lambda>c. c \<noteq> CHR ''/'') (rev p)"
  have sum: "length ?t + length ?h = length p"
    by (metis length_append length_rev takeWhile_dropWhile_id)
  have "length (rstrip_by (\<lambda>c. c = CHR ''/'') (rev ?h)) \<le> length ?h"
    by (simp add: rstrip_by_def length_dropWhile_le)
  with sum show ?thesis
    by (auto simp: path_split_def Let_def)
qed

text \<open>
  The loop over the components of the file name, from the last one upward: \<open>position\<close> is
  the pair that \<^verbatim>\<open>os.path.split\<close> returned.
\<close>

function skip_component :: "pyval \<Rightarrow> string \<times> string \<Rightarrow> error + bool" where
  "skip_component skip position =
     (if snd position \<noteq> [] then
        (case py_in (snd position) skip of
           Inl e \<Rightarrow> Inl e
         | Inr found \<Rightarrow>
             if found then Inr True else skip_component skip (path_split (fst position)))
      else Inr False)"
  by pat_completeness auto
termination
proof (relation "measure (\<lambda>(skip, position). length (fst position) + length (snd position))")
  show "wf (measure (\<lambda>(skip, position). length (fst position) + length (snd position)))"
    by simp
next
  fix skip :: pyval and position :: "string \<times> string" and found :: bool
  assume nonempty: "snd position \<noteq> []"
  from nonempty path_split_length [of "fst position"]
  show "((skip, path_split (fst position)), (skip, position))
        \<in> measure (\<lambda>(skip, position). length (fst position) + length (snd position))"
    by (cases "snd position") auto
qed

declare skip_component.simps [simp del]

text \<open>The loop over \<^verbatim>\<open>config["skip"]\<close>: an entry with the same absolute path.\<close>

definition skip_exact :: "env \<Rightarrow> string \<Rightarrow> string list \<Rightarrow> bool" where
  "skip_exact E normalized_path skip_paths =
     list_ex (\<lambda>skip_path.
        abspath E normalized_path = abspath E (replace skip_path [CHR 0x5C] ''/'')) skip_paths"

text \<open>The loop over \<^verbatim>\<open>config["skip_glob"]\<close>.\<close>

definition skip_glob_match :: "env \<Rightarrow> string \<Rightarrow> string list \<Rightarrow> bool" where
  "skip_glob_match E filename globs =
     list_ex (\<lambda>glob. fnmatch E filename glob \<or> fnmatch E (''/'' @ filename) glob) globs"

definition file_should_be_skipped :: "env \<Rightarrow> string \<Rightarrow> settings \<Rightarrow> string \<Rightarrow> error + bool" where
  "file_should_be_skipped E filename config path =
     (let os_path = path_join path filename;
          normalized_path0 = replace os_path [CHR 0x5C] ''/'';
          normalized_path = (if take 1 (drop 1 normalized_path0) = '':''
                             then drop 2 normalized_path0 else normalized_path0);
          check_exclude0 = ''/'' @ replace filename [CHR 0x5C] ''/'' @ ''/'';
          check_exclude = (if path \<noteq> [] \<and> basename path \<in> set [''lib'']
                           then ''/'' @ basename path @ check_exclude0 else check_exclude0)
      in
      ebind (if path \<noteq> [] then dict_item config ''safety_excludes'' else Inr (VStr path)) (\<lambda>safety.
        if truthy safety \<and> safety_exclude_search check_exclude then Inr True
        else
          ebind (dict_item config ''skip'') (\<lambda>skip.
          ebind (items_of E skip) (\<lambda>skip_paths.
            if skip_exact E normalized_path skip_paths then Inr True
            else
              ebind (skip_component skip (path_split filename)) (\<lambda>found.
                if found then Inr True
                else
                  ebind (dict_item config ''skip_glob'') (\<lambda>skip_glob.
                  ebind (items_of E skip_glob) (\<lambda>globs.
                    if skip_glob_match E filename globs then Inr True
                    else if \<not> (isfile E os_path \<or> isdir E os_path \<or> islink E os_path)
                    then Inr True
                    else Inr False)))))))"

section \<open>The configuration record\<close>

text \<open>
  The fields of the frozen dataclass \<^verbatim>\<open>Config\<close> with their defaults, in the order of the source
  (\<^verbatim>\<open>multi_line_output\<close> has no annotation and is no field). An instance is the mapping from
  its field names to their values.
\<close>

definition Config_fields :: "(string \<times> pyval) list" where
  "Config_fields =
   [(''py_version'', VStr ''3''),
    (''force_to_top'', VList []),
    (''skip'', VList []),
    (''skip_glob'', VList []),
    (''line_length'', VInt 79),
    (''wrap_length'', VInt 0),
    (''line_ending'', VStr []),
    (''sections'', VTuple DEFAULT_SECTIONS),
    (''no_sections'', VBool False),
    (''known_future_library'', VList [''__future__'']),
    (''known_third_party'', VList [''google.appengine.api'']),
    (''known_first_party'', VList []),
    (''known_standard_library'', VList []),
    (''forced_separate'', VList []),
    (''indent'', VStr ''    ''),
    (''comment_prefix'', VStr ''  #''),
    (''length_sort'', VBool False),
    (''add_imports'', VList []),
    (''remove_imports'', VList []),
    (''reverse_relative'', VBool False),
    (''force_single_line'', VBool False),
    (''default_section'', VStr ''FIRSTPARTY''),
    (''import_heading_future'', VStr []),
    (''import_heading_stdlib'', VStr []),
    (''import_heading_thirdparty'', VStr []),
    (''import_heading_firstparty'', VStr []),
    (''import_heading_localfolder'', VStr []),
    (''balanced_wrapping'', VBool False),
    (''use_parentheses'', VBool False),
    (''order_by_type'', VBool True),
    (''atomic'', VBool False),
    (''lines_after_imports'', VInt (- 1)),
    (''lines_between_sections'', VInt 1),
    (''lines_between_types'', VInt 0),
    (''combine_as_imports'', VBool False),
    (''combine_star'', VBool False),
    (''keep_direct_and_as_imports'', VBool False),
    (''include_trailing_comma'', VBool False),
    (''from_first'', VBool False),
    (''verbose'', VBool False),
    (''quiet'', VBool False),
    (''force_adds'', VBool False),
    (''force_alphabetical_sort_within_sections'', VBool False),
    (''force_alphabetical_sort'', VBool False),
    (''force_grid_wrap'', VInt 0),
    (''force_sort_within_sections'', VBool False),
    (''show_diff'', VBool False),
    (''ignore_whitespace'', VBool False),
    (''no_lines_before'', VList []),
    (''no_inline_sort'', VBool False),
    (''ignore_comments'', VBool False),
    (''safety_excludes'', VBool True),
    (''case_sensitive'', VBool False),
    (''sources'', VList [])]"

text \<open>
  \<^verbatim>\<open>Config.__post_init__\<close>. The local variable \<^verbatim>\<open>py_version\<close> is \<open>None\<close> while it is unbound;
  reading it then raises \<^verbatim>\<open>UnboundLocalError\<close>. The operator \<^verbatim>\<open>|\<close> of a set takes a set only.
\<close>

definition post_init :: "env \<Rightarrow> settings \<Rightarrow> error + settings" where
  "post_init E self =
     ebind (case self ''known_standard_library'' of
              None \<Rightarrow> Inl AttributeError | Some v \<Rightarrow> set_of v) (\<lambda>known_standard_library.
       let py_version = (if dict_get self ''py_version'' = VStr ''auto''
                         then Some (interpreter_version E) else None)
       in
       case py_version of
         None \<Rightarrow> Inl (UnboundLocalError ''py_version'')
       | Some v \<Rightarrow>
           if v \<notin> set (VALID_PY_TARGETS E) then Inl (ValueError (PyVersionNotSupported v))
           else
             (let self1 = (if v \<noteq> ''all'' then self(''py_version'' \<mapsto> VStr (''py'' @ v)) else self)
              in
              case map_of (stdlibs E) v of
                None \<Rightarrow> Inl AttributeError
              | Some stdlib \<Rightarrow>
                  (case dict_get self1 ''known_standard_library'' of
                     VSet xs \<Rightarrow>
                       Inr (self1(''known_standard_library'' \<mapsto>
                              VList (set_iter E (stdlib @ filter (\<lambda>x. x \<notin> set stdlib) xs))))
                   | _ \<Rightarrow> Inl TypeError)))"

text \<open>
  \<^verbatim>\<open>Config(**kwargs)\<close>: the generated \<^verbatim>\<open>__init__\<close> refuses a keyword that is no field, assigns
  every field its argument or its default, and calls \<^verbatim>\<open>__post_init__\<close>.
\<close>

definition Config_new :: "env \<Rightarrow> (string \<times> pyval) list \<Rightarrow> error + settings" where
  "Config_new E kwargs =
     (if list_ex (\<lambda>kv. fst kv \<notin> set (map fst Config_fields)) kwargs then Inl TypeError
      else post_init E (map_of (kwargs @ Config_fields)))"

section \<open>A concrete environment\<close>

text \<open>
  An interpreter of version 3.8 with the standard-library tables of a small \<^verbatim>\<open>stdlibs\<close>
  package, a home directory, no \<^verbatim>\<open>appdirs\<close>, and a file system given by the list of its
  regular files. It serves the examples below.
\<close>

definition example_env :: "string list \<Rightarrow> env" where
  "example_env files =
     \<lparr>sys_version = (3, 8),
      stdlibs = [(''__name__'', []), (''all'', [''os'', ''sys'', ''commands'']),
                 (''py2'', [''os'', ''commands'']), (''py27'', [''os'', ''commands'']),
                 (''py3'', [''os'', ''sys'']), (''py38'', [''os'', ''sys''])],
      appdirs_config = None,
      expanduser = (\<lambda>p. if startswith p ''~/'' then ''/home/user'' @ drop 1 p else p),
      path_exists = (\<lambda>p. p \<in> set files),
      isfile = (\<lambda>p. p \<in> set files),
      isdir = (\<lambda>p. False),
      islink = (\<lambda>p. False),
      abspath = (\<lambda>p. if startswith p ''/'' then p else ''/proj/'' @ p),
      fnmatch = (\<lambda>name pat. name = pat),
      get_config_data = (\<lambda>file_path sections. Inr []),
      type_attr = (\<lambda>t name.
         if t = TStr \<and> name \<in> set [''title'', ''strip'', ''upper'']
         then Some (VObj (''str.'' @ name))
         else if t = TStr \<and> name = ''__dictoffset__'' then Some (VInt 0)
         else None),
      conv_attr = (\<lambda>name. None),
      wrap_mode_from_string = (\<lambda>v. Inl TypeError),
      repr = (\<lambda>v. ''<object>''),
      set_iter = (\<lambda>xs. xs)\<rparr>"

section \<open>Properties of the settings merger\<close>

lemma converter_of_default_keys:
  "get_str_to_type_converter ''sections'' = ConvType TTuple"
  "get_str_to_type_converter ''force_grid_wrap'' = ConvType TInt"
  "get_str_to_type_converter ''skip'' = ConvType TList"
  "get_str_to_type_converter ''known_first_party'' = ConvType TList"
  "get_str_to_type_converter ''default_section'' = ConvType TStr"
  by (simp_all add: get_str_to_type_converter_def default_def default_items_def)

lemma converter_absent_key:
  "default k = None \<Longrightarrow> get_str_to_type_converter k = ConvType TStr"
  by (simp add: get_str_to_type_converter_def)

lemma access_force_grid_wrap:
  "lower (replace ''force_grid_wrap'' ''not_'' []) = ''force_grid_wrap''"
  by code_simp


text \<open>The branches of the loop body, each under the conditions that select it.\<close>

lemma merge_key_sections:
  assumes "lower (replace key ''not_'' []) = ''sections''"
  shows "merge_key E cwd acc (key, value) =
         ebind (as_list value) (\<lambda>xs. Inr (acc(''sections'' \<mapsto> VTuple xs)))"
  using assms by (simp add: merge_key_def Let_def converter_of_default_keys)

lemma merge_key_list:
  assumes "lower (replace key ''not_'' []) = ak"
    and "get_str_to_type_converter ak = ConvType TList
         \<or> get_str_to_type_converter ak = ConvType TTuple"
    and "ak \<noteq> ''sections''"
    and "set_of (case acc ak of None \<Rightarrow> dict_get default ak | Some v \<Rightarrow> v) = Inr ex"
    and "as_list value = Inr xs"
  shows "merge_key E cwd acc (key, value) =
         Inr (acc(ak \<mapsto>
           (if startswith key ''not_'' then difference E ex xs
            else if startswith key ''known_'' then union E ex (abspaths cwd xs)
            else union E ex xs)))"
  using assms by (auto simp add: merge_key_def Let_def ebind_def)

lemma merge_key_text:
  assumes "lower (replace key ''not_'' []) = ak"
    and "get_str_to_type_converter ak = ConvType TStr"
    and "\<not> startswith key ''known_''"
  shows "merge_key E cwd acc (key, value) =
         Inr (acc(ak \<mapsto>
           (case type_attr E TStr (py_str E value) of
              None \<Rightarrow> VStr (py_str E value)
            | Some a \<Rightarrow> if truthy a then a else VStr (py_str E value))))"
proof -
  have other_key: "key \<noteq> ''force_grid_wrap''"
  proof
    assume k: "key = ''force_grid_wrap''"
    have "ak = ''force_grid_wrap''"
      using assms(1) unfolding k access_force_grid_wrap by (rule sym)
    with assms(2) show False
      by (simp add: converter_of_default_keys)
  qed
  from assms other_key show ?thesis
    by (simp add: merge_key_def Let_def getattr_converter_def call_converter_def ebind_def
        split: option.splits)
qed

lemma set_difference:
  assumes "\<And>xs. set (set_iter E xs) = set xs"
  shows "\<exists>ys. difference E a b = VList ys \<and> set ys = set a - set b"
  using assms by (auto simp: difference_def)

lemma set_union:
  assumes "\<And>xs. set (set_iter E xs) = set xs"
  shows "\<exists>ys. union E a b = VList ys \<and> set ys = set a \<union> set b"
  using assms by (auto simp: union_def)

lemma example_env_set_iter: "set (set_iter (example_env fs) xs) = set xs"
  by (simp add: example_env_def)




text \<open>
  Claim C1, amended. When the access key of a config-file key is exactly \<^verbatim>\<open>sections\<close>, the
  merge replaces the accumulator's value by the parsed list, in the order supplied. For
  every other list-typed setting, a key that does not start with \<^verbatim>\<open>not_\<close> yields the union of
  the existing value and the parsed list; for a key that starts with \<^verbatim>\<open>known_\<close> the parsed
  list is first passed through the path absolutization, which joins an entry that ends but
  does not start with a slash onto the directory of the config file.
\<close>

theorem sections_replace_others_union:
  assumes "lower (replace key ''not_'' []) = access_key"
    and "as_list value = Inr parsed"
  shows "(access_key = ''sections'' \<longrightarrow>
            merge_key E cwd acc (key, value) = Inr (acc(''sections'' \<mapsto> VTuple parsed)))
       \<and> (access_key \<noteq> ''sections''
            \<and> (get_str_to_type_converter access_key = ConvType TList
                 \<or> get_str_to_type_converter access_key = ConvType TTuple)
            \<and> \<not> startswith key ''not_''
            \<and> set_of (case acc access_key of None \<Rightarrow> dict_get default access_key | Some v \<Rightarrow> v)
                = Inr existing
            \<and> (\<forall>xs. set (set_iter E xs) = set xs) \<longrightarrow>
          (\<exists>ys. merge_key E cwd acc (key, value) = Inr (acc(access_key \<mapsto> VList ys))
              \<and> set ys = set existing
                    \<union> set (if startswith key ''known_'' then abspaths cwd parsed else parsed)))"
proof (intro conjI impI)
  assume "access_key = ''sections''"
  with assms show "merge_key E cwd acc (key, value) = Inr (acc(''sections'' \<mapsto> VTuple parsed))"
    by (simp add: merge_key_sections ebind_def)
next
  assume h: "access_key \<noteq> ''sections''
            \<and> (get_str_to_type_converter access_key = ConvType TList
                 \<or> get_str_to_type_converter access_key = ConvType TTuple)
            \<and> \<not> startswith key ''not_''
            \<and> set_of (case acc access_key of None \<Rightarrow> dict_get default access_key | Some v \<Rightarrow> v)
                = Inr existing
            \<and> (\<forall>xs. set (set_iter E xs) = set xs)"
  then have m: "merge_key E cwd acc (key, value) =
      Inr (acc(access_key \<mapsto>
        union E existing (if startswith key ''known_'' then abspaths cwd parsed else parsed)))"
    using assms by (simp add: merge_key_list)
  from h have "\<And>xs. set (set_iter E xs) = set xs" by simp
  from set_union [OF this] m
  show "\<exists>ys. merge_key E cwd acc (key, value) = Inr (acc(access_key \<mapsto> VList ys))
              \<and> set ys = set existing
                    \<union> set (if startswith key ''known_'' then abspaths cwd parsed else parsed)"
    by metis
qed

theorem sections_replace_others_union_witness:
  "as_list (VStr ''THIRDPARTY, FUTURE'') = Inr [''THIRDPARTY'', ''FUTURE'']
   \<and> merge_key (example_env []) ''/proj'' default (''sections'', VStr ''THIRDPARTY, FUTURE'')
       = Inr (default(''sections'' \<mapsto> VTuple [''THIRDPARTY'', ''FUTURE'']))
   \<and> as_list (VStr ''b.py,a.py'') = Inr [''b.py'', ''a.py'']
   \<and> set_of (VList [''a.py'']) = Inr [''a.py'']
   \<and> (\<exists>ys. merge_key (example_env []) ''/proj'' (default(''skip'' \<mapsto> VList [''a.py'']))
               (''skip'', VStr ''b.py,a.py'')
             = Inr (default(''skip'' \<mapsto> VList ys)) \<and> set ys = {''a.py'', ''b.py''})"
proof -
  have k1: "lower (replace ''sections'' ''not_'' []) = ''sections''" by code_simp
  have p1: "as_list (VStr ''THIRDPARTY, FUTURE'') = Inr [''THIRDPARTY'', ''FUTURE'']" by code_simp
  have k2: "lower (replace ''skip'' ''not_'' []) = ''skip''" by code_simp
  have p2: "as_list (VStr ''b.py,a.py'') = Inr [''b.py'', ''a.py'']" by code_simp
  have s2: "set_of (VList [''a.py'']) = Inr [''a.py'']" by simp
  have n2: "\<not> startswith ''skip'' ''not_''" "\<not> startswith ''skip'' ''known_''"
    by (simp_all add: startswith_def)
  from sections_replace_others_union [OF k1 p1, of "example_env []" "''/proj''" default]
  have a: "merge_key (example_env []) ''/proj'' default (''sections'', VStr ''THIRDPARTY, FUTURE'')
       = Inr (default(''sections'' \<mapsto> VTuple [''THIRDPARTY'', ''FUTURE'']))"
    by simp
  from sections_replace_others_union [OF k2 p2, of "example_env []" "''/proj''"
      "default(''skip'' \<mapsto> VList [''a.py''])" "[''a.py'']"] n2
  have b: "\<exists>ys. merge_key (example_env []) ''/proj'' (default(''skip'' \<mapsto> VList [''a.py'']))
               (''skip'', VStr ''b.py,a.py'')
             = Inr (default(''skip'' \<mapsto> VList ys)) \<and> set ys = {''a.py'', ''b.py''}"
    by (simp add: converter_of_default_keys example_env_set_iter insert_commute)
  from a b p1 p2 s2 show ?thesis by blast
qed

text \<open>
  The claim as stated fails for a \<^verbatim>\<open>known_\<close> key: the entry \<^verbatim>\<open>mypkg/\<close> of a file in \<^verbatim>\<open>/proj\<close> is
  stored as \<^verbatim>\<open>/proj/mypkg/\<close>, which is not in the union of the existing value and the parsed list.
\<close>

theorem known_key_union_counterexample:
  "merge_key (example_env []) ''/proj'' default (''known_first_party'', VStr ''mypkg/'')
     = Inr (default(''known_first_party'' \<mapsto> VList [''/proj/mypkg/'']))
   \<and> default ''known_first_party'' = Some (VList [])
   \<and> as_list (VStr ''mypkg/'') = Inr [''mypkg/'']
   \<and> set [''/proj/mypkg/''] \<noteq> set ([] :: string list) \<union> set [''mypkg/'']"
proof -
  have k: "lower (replace ''known_first_party'' ''not_'' []) = ''known_first_party''" by code_simp
  have p: "as_list (VStr ''mypkg/'') = Inr [''mypkg/'']" by code_simp
  have d: "default ''known_first_party'' = Some (VList [])"
    by (simp add: default_def default_items_def)
  have ab: "abspaths ''/proj'' [''mypkg/''] = [''/proj/mypkg/'']" by code_simp
  have "merge_key (example_env []) ''/proj'' default (''known_first_party'', VStr ''mypkg/'')
     = Inr (default(''known_first_party'' \<mapsto> VList [''/proj/mypkg/'']))"
    by (subst merge_key_list [OF k _ _ _ p, where ex = "[]"])
       (simp_all add: converter_of_default_keys d startswith_def ab union_def example_env_def)
  with p d show ?thesis by simp
qed

section \<open>Properties of the removal marker\<close>

text \<open>The two branches of the loop body of the override applicator.\<close>

lemma override_key_list:
  assumes "lower (replace key ''not_'' []) = ak"
    and "ak \<noteq> ''sections''"
    and "type_of (dict_get config ak) \<in> set [TList, TTuple, TSet]"
    and "set_of (dict_get config ak) = Inr current"
    and "set_of value = Inr vs"
  shows "override_key E config (key, value) =
         Inr (config(ak \<mapsto>
           VList (set_iter E
             (if startswith key ''not_'' then filter (\<lambda>x. x \<notin> set vs) current
              else current @ filter (\<lambda>x. x \<notin> set current) vs))))"
  using assms by (simp add: override_key_def Let_def ebind_def)

lemma override_key_sections:
  assumes "lower (replace key ''not_'' []) = ''sections''"
  shows "override_key E config (key, value) = Inr (config(key \<mapsto> value))"
  using assms by (simp add: override_key_def Let_def)

text \<open>
  Claim C2, amended. For every list-typed setting other than \<^verbatim>\<open>sections\<close> and every key that
  starts with the removal marker \<^verbatim>\<open>not_\<close>, the resulting value holds exactly the elements of
  the existing value that the parsed list does not name: in a config file, where the setting
  is list-typed by the Default Table and the parsed list is \<^verbatim>\<open>_as_list\<close> of the raw value, and
  in the override applicator, where the current value is a list, a tuple or a set and the named
  elements are those of the override's value. No other setting changes.
\<close>

theorem not_marker_set_difference:
  assumes "lower (replace key ''not_'' []) = access_key"
    and "startswith key ''not_''"
    and "access_key \<noteq> ''sections''"
    and "\<forall>xs. set (set_iter E xs) = set xs"
  shows "((get_str_to_type_converter access_key = ConvType TList
             \<or> get_str_to_type_converter access_key = ConvType TTuple)
          \<and> set_of (case acc access_key of None \<Rightarrow> dict_get default access_key | Some v \<Rightarrow> v)
              = Inr existing
          \<and> as_list raw = Inr parsed \<longrightarrow>
          (\<exists>ys. merge_key E cwd acc (key, raw) = Inr (acc(access_key \<mapsto> VList ys))
              \<and> set ys = set existing - set parsed))
       \<and> (type_of (dict_get config access_key) \<in> set [TList, TTuple, TSet]
          \<and> set_of (dict_get config access_key) = Inr current
          \<and> set_of raw = Inr named \<longrightarrow>
          (\<exists>ys. override_key E config (key, raw) = Inr (config(access_key \<mapsto> VList ys))
              \<and> set ys = set current - set named))"
proof (intro conjI impI)
  assume h: "(get_str_to_type_converter access_key = ConvType TList
             \<or> get_str_to_type_converter access_key = ConvType TTuple)
          \<and> set_of (case acc access_key of None \<Rightarrow> dict_get default access_key | Some v \<Rightarrow> v)
              = Inr existing
          \<and> as_list raw = Inr parsed"
  with assms have m: "merge_key E cwd acc (key, raw) =
      Inr (acc(access_key \<mapsto> difference E existing parsed))"
    by (simp add: merge_key_list)
  from assms(4) have "\<And>xs. set (set_iter E xs) = set xs" by simp
  from set_difference [OF this] m
  show "\<exists>ys. merge_key E cwd acc (key, raw) = Inr (acc(access_key \<mapsto> VList ys))
              \<and> set ys = set existing - set parsed"
    by metis
next
  assume h: "type_of (dict_get config access_key) \<in> set [TList, TTuple, TSet]
          \<and> set_of (dict_get config access_key) = Inr current
          \<and> set_of raw = Inr named"
  with assms(1,2,3) have "override_key E config (key, raw) =
      Inr (config(access_key \<mapsto> VList (set_iter E (filter (\<lambda>x. x \<notin> set named) current))))"
    by (simp add: override_key_list)
  moreover have "set (set_iter E (filter (\<lambda>x. x \<notin> set named) current)) = set current - set named"
    using assms(4) by auto
  ultimately
  show "\<exists>ys. override_key E config (key, raw) = Inr (config(access_key \<mapsto> VList ys))
              \<and> set ys = set current - set named"
    by blast
qed

theorem not_marker_set_difference_witness:
  "startswith ''not_skip'' ''not_''
   \<and> as_list (VStr ''b.py'') = Inr [''b.py'']
   \<and> (\<exists>ys. merge_key (example_env []) ''/proj'' (default(''skip'' \<mapsto> VList [''a.py'', ''b.py'']))
               (''not_skip'', VStr ''b.py'')
             = Inr (default(''skip'' \<mapsto> VList ys)) \<and> set ys = {''a.py''})
   \<and> (\<exists>ys. override_key (example_env []) (default(''skip'' \<mapsto> VList [''a.py'', ''b.py'']))
               (''not_skip'', VList [''b.py''])
             = Inr (default(''skip'' \<mapsto> VList ys)) \<and> set ys = {''a.py''})"
proof -
  let ?acc = "default(''skip'' \<mapsto> VList [''a.py'', ''b.py''])"
  have k: "lower (replace ''not_skip'' ''not_'' []) = ''skip''" by code_simp
  have n: "startswith ''not_skip'' ''not_''" by (simp add: startswith_def)
  have d: "''skip'' \<noteq> ''sections''" by simp
  have w: "\<forall>xs. set (set_iter (example_env []) xs) = set xs"
    by (simp add: example_env_set_iter)
  have p: "as_list (VStr ''b.py'') = Inr [''b.py'']" by code_simp
  have e: "set_of (case ?acc ''skip'' of None \<Rightarrow> dict_get default ''skip'' | Some v \<Rightarrow> v)
           = Inr [''a.py'', ''b.py'']"
    by simp
  have c: "get_str_to_type_converter ''skip'' = ConvType TList
           \<or> get_str_to_type_converter ''skip'' = ConvType TTuple"
    by (simp add: converter_of_default_keys)
  have g: "dict_get ?acc ''skip'' = VList [''a.py'', ''b.py'']"
    by (simp add: dict_get_def)
  have ty: "type_of (dict_get ?acc ''skip'') \<in> set [TList, TTuple, TSet]"
    by (simp add: g)
  have cur: "set_of (dict_get ?acc ''skip'') = Inr [''a.py'', ''b.py'']"
    by (simp add: g)
  have nm: "set_of (VList [''b.py'']) = Inr [''b.py'']" by simp
  have diff: "{''a.py'', ''b.py''} - {''b.py''} = {''a.py''}" by auto
  from not_marker_set_difference [OF k n d w, where acc = ?acc and raw = "VStr ''b.py''"
      and existing = "[''a.py'', ''b.py'']" and parsed = "[''b.py'']" and cwd = "''/proj''",
      THEN conjunct1] c e p
  have "\<exists>ys. merge_key (example_env []) ''/proj'' ?acc (''not_skip'', VStr ''b.py'')
             = Inr (default(''skip'' \<mapsto> VList ys)) \<and> set ys = {''a.py'', ''b.py''} - {''b.py''}"
    by simp
  then have a: "\<exists>ys. merge_key (example_env []) ''/proj'' ?acc (''not_skip'', VStr ''b.py'')
             = Inr (default(''skip'' \<mapsto> VList ys)) \<and> set ys = {''a.py''}"
    unfolding diff .
  from not_marker_set_difference [OF k n d w, where config = ?acc and raw = "VList [''b.py'']"
      and current = "[''a.py'', ''b.py'']" and named = "[''b.py'']", THEN conjunct2]
    ty cur nm
  have "\<exists>ys. override_key (example_env []) ?acc (''not_skip'', VList [''b.py''])
             = Inr (default(''skip'' \<mapsto> VList ys)) \<and> set ys = {''a.py'', ''b.py''} - {''b.py''}"
    by (simp add: g)
  then have b: "\<exists>ys. override_key (example_env []) ?acc (''not_skip'', VList [''b.py''])
             = Inr (default(''skip'' \<mapsto> VList ys)) \<and> set ys = {''a.py''}"
    unfolding diff .
  from n p a b show ?thesis by (intro conjI)
qed

text \<open>
  The claim as stated fails for \<^verbatim>\<open>sections\<close>, which is list-typed: the config-file key
  \<^verbatim>\<open>not_sections\<close> replaces the sections by the parsed list, and the override \<^verbatim>\<open>not_sections\<close>
  is stored under its own name and leaves the sections as they are.
\<close>

theorem not_sections_counterexample:
  "merge_key (example_env []) ''/proj'' default (''not_sections'', VStr ''FUTURE'')
     = Inr (default(''sections'' \<mapsto> VTuple [''FUTURE'']))
   \<and> override_key (example_env []) default (''not_sections'', VList [''FUTURE''])
     = Inr (default(''not_sections'' \<mapsto> VList [''FUTURE'']))
   \<and> default ''sections'' = Some (VTuple DEFAULT_SECTIONS)
   \<and> get_str_to_type_converter ''sections'' = ConvType TTuple
   \<and> set [''FUTURE''] \<noteq> set DEFAULT_SECTIONS - set [''FUTURE'']
   \<and> set DEFAULT_SECTIONS \<noteq> set DEFAULT_SECTIONS - set [''FUTURE'']"
proof -
  have k: "lower (replace ''not_sections'' ''not_'' []) = ''sections''" by code_simp
  have p: "as_list (VStr ''FUTURE'') = Inr [''FUTURE'']" by code_simp
  have a: "merge_key (example_env []) ''/proj'' default (''not_sections'', VStr ''FUTURE'')
     = Inr (default(''sections'' \<mapsto> VTuple [''FUTURE'']))"
    by (simp add: merge_key_sections [OF k] p ebind_def)
  have b: "override_key (example_env []) default (''not_sections'', VList [''FUTURE''])
     = Inr (default(''not_sections'' \<mapsto> VList [''FUTURE'']))"
    by (rule override_key_sections [OF k])
  have d: "default ''sections'' = Some (VTuple DEFAULT_SECTIONS)"
    by (simp add: default_def default_items_def)
  have m1: "''STDLIB'' \<in> set DEFAULT_SECTIONS - set [''FUTURE'']"
    by (simp add: DEFAULT_SECTIONS_def)
  have m2: "''STDLIB'' \<notin> set [''FUTURE'']" by simp
  have m3: "''FUTURE'' \<in> set DEFAULT_SECTIONS" by (simp add: DEFAULT_SECTIONS_def)
  have m4: "''FUTURE'' \<notin> set DEFAULT_SECTIONS - set [''FUTURE'']" by simp
  have e1: "set [''FUTURE''] \<noteq> set DEFAULT_SECTIONS - set [''FUTURE'']"
  proof
    assume "set [''FUTURE''] = set DEFAULT_SECTIONS - set [''FUTURE'']"
    with m1 have "''STDLIB'' \<in> set [''FUTURE'']" by (simp only:)
    with m2 show False by (rule notE)
  qed
  have e2: "set DEFAULT_SECTIONS \<noteq> set DEFAULT_SECTIONS - set [''FUTURE'']"
  proof
    assume "set DEFAULT_SECTIONS = set DEFAULT_SECTIONS - set [''FUTURE'']"
    with m3 have "''FUTURE'' \<in> set DEFAULT_SECTIONS - set [''FUTURE'']" by (simp only:)
    with m4 show False by (rule notE)
  qed
  have c: "get_str_to_type_converter ''sections'' = ConvType TTuple"
    by (simp add: converter_of_default_keys)
  from a b d c e1 e2 show ?thesis by (intro conjI)
qed

section \<open>Properties of the text-typed settings\<close>

text \<open>
  Claim C10, amended. For a setting whose converter is the text type (as it is for every key
  that the Default Table does not have) and whose key does not start with \<^verbatim>\<open>known_\<close>, the merge
  looks the raw value's text up among the attributes of the text type: an attribute with a
  true value is stored in the place of the text, and a raw value that names no attribute, or
  one with a false value, is stored as its text.
\<close>

theorem text_setting_attribute_lookup:
  assumes "lower (replace key ''not_'' []) = access_key"
    and "get_str_to_type_converter access_key = ConvType TStr"
    and "\<not> startswith key ''known_''"
  shows "merge_key E cwd acc (key, value) =
         Inr (acc(access_key \<mapsto>
           (case type_attr E TStr (py_str E value) of
              None \<Rightarrow> VStr (py_str E value)
            | Some a \<Rightarrow> if truthy a then a else VStr (py_str E value))))
       \<and> (\<forall>k. default k = None \<longrightarrow> get_str_to_type_converter k = ConvType TStr)"
  using assms by (simp add: merge_key_text converter_absent_key)

theorem text_setting_attribute_lookup_witness:
  "get_str_to_type_converter ''default_section'' = ConvType TStr
   \<and> \<not> startswith ''default_section'' ''known_''
   \<and> merge_key (example_env []) ''/proj'' default (''default_section'', VStr ''title'')
       = Inr (default(''default_section'' \<mapsto> VObj ''str.title''))
   \<and> merge_key (example_env []) ''/proj'' default (''default_section'', VStr ''THIRDPARTY'')
       = Inr (default(''default_section'' \<mapsto> VStr ''THIRDPARTY''))
   \<and> default ''my_key'' = None
   \<and> merge_key (example_env []) ''/proj'' default (''my_key'', VStr ''upper'')
       = Inr (default(''my_key'' \<mapsto> VObj ''str.upper''))"
proof -
  have k: "lower (replace ''default_section'' ''not_'' []) = ''default_section''" by code_simp
  have c: "get_str_to_type_converter ''default_section'' = ConvType TStr"
    by (simp add: converter_of_default_keys)
  have n: "\<not> startswith ''default_section'' ''known_''" by (simp add: startswith_def)
  have k': "lower (replace ''my_key'' ''not_'' []) = ''my_key''" by code_simp
  have d': "default ''my_key'' = None" by (simp add: default_def default_items_def)
  have n': "\<not> startswith ''my_key'' ''known_''" by (simp add: startswith_def)
  from text_setting_attribute_lookup [OF k c n, of "example_env []" "''/proj''" default "VStr ''title''"]
  have a: "merge_key (example_env []) ''/proj'' default (''default_section'', VStr ''title'')
       = Inr (default(''default_section'' \<mapsto> VObj ''str.title''))"
    by (simp add: example_env_def)
  from text_setting_attribute_lookup [OF k c n, of "example_env []" "''/proj''" default "VStr ''THIRDPARTY''"]
  have b: "merge_key (example_env []) ''/proj'' default (''default_section'', VStr ''THIRDPARTY'')
       = Inr (default(''default_section'' \<mapsto> VStr ''THIRDPARTY''))"
    by (simp add: example_env_def)
  from text_setting_attribute_lookup [OF k' converter_absent_key [OF d'] n',
      of "example_env []" "''/proj''" default "VStr ''upper''"]
  have e: "merge_key (example_env []) ''/proj'' default (''my_key'', VStr ''upper'')
       = Inr (default(''my_key'' \<mapsto> VObj ''str.upper''))"
    by (simp add: example_env_def)
  from a b c n d' e show ?thesis by blast
qed

text \<open>
  The claim as stated fails for a key that starts with \<^verbatim>\<open>known_\<close> and is absent from the
  Default Table: its raw value \<^verbatim>\<open>title\<close> is stored as the list of the one text \<^verbatim>\<open>title\<close>. It
  also fails for an attribute with a false value, such as \<^verbatim>\<open>__dictoffset__\<close>, which is 0.
\<close>

theorem text_setting_attribute_counterexample:
  "default ''known_django'' = None
   \<and> get_str_to_type_converter ''known_django'' = ConvType TStr
   \<and> type_attr (example_env []) TStr ''title'' = Some (VObj ''str.title'')
   \<and> merge_key (example_env []) ''/proj'' default (''known_django'', VStr ''title'')
       = Inr (default(''known_django'' \<mapsto> VList [''title'']))
   \<and> type_attr (example_env []) TStr ''__dictoffset__'' = Some (VInt 0)
   \<and> merge_key (example_env []) ''/proj'' default (''default_section'', VStr ''__dictoffset__'')
       = Inr (default(''default_section'' \<mapsto> VStr ''__dictoffset__''))"
proof -
  have d: "default ''known_django'' = None" by (simp add: default_def default_items_def)
  have k: "lower (replace ''known_django'' ''not_'' []) = ''known_django''" by code_simp
  have p: "as_list (VStr ''title'') = Inr [''title'']" by code_simp
  have a: "merge_key (example_env []) ''/proj'' default (''known_django'', VStr ''title'')
       = Inr (default(''known_django'' \<mapsto> VList [''title'']))"
    unfolding merge_key_def Let_def fst_conv snd_conv k converter_absent_key [OF d] p
    by (simp add: startswith_def ebind_def abspaths_def endswith_def)
  have k': "lower (replace ''default_section'' ''not_'' []) = ''default_section''" by code_simp
  have b: "merge_key (example_env []) ''/proj'' default (''default_section'', VStr ''__dictoffset__'')
       = Inr (default(''default_section'' \<mapsto> VStr ''__dictoffset__''))"
    by (subst merge_key_text [OF k'])
       (simp_all add: converter_of_default_keys startswith_def example_env_def)
  from d a b show ?thesis
    by (simp add: converter_absent_key example_env_def)
qed

section \<open>Properties of the version resolution\<close>

lemma str_of_nat_last: "str_of_nat n \<noteq> [] \<and> last (str_of_nat n) = digit_char (n mod 10)"
  by (subst (1 2) str_of_nat.simps) simp

lemma digit_char_not_o: "digit_char (k mod 10) \<noteq> CHR ''o''"
proof
  assume "digit_char (k mod 10) = CHR ''o''"
  then have "(of_char (digit_char (k mod 10)) :: nat) = of_char CHR ''o''" by simp
  moreover have "48 + k mod 10 < 256" by simp
  ultimately have "48 + k mod 10 = 111" by (simp add: digit_char_def)
  then show False by presburger
qed

lemma interpreter_version_proper:
  "interpreter_version E \<noteq> [] \<and> interpreter_version E \<noteq> ''auto''"
proof -
  let ?b = "str_of_nat (snd (sys_version E))"
  have b: "?b \<noteq> []" "last ?b = digit_char (snd (sys_version E) mod 10)"
    using str_of_nat_last by simp_all
  then have "last (interpreter_version E) = digit_char (snd (sys_version E) mod 10)"
    by (simp add: interpreter_version_def)
  moreover have "last ''auto'' = CHR ''o''" by simp
  ultimately have "interpreter_version E \<noteq> ''auto''"
    using digit_char_not_o by metis
  with b show ?thesis by (simp add: interpreter_version_def)
qed

lemma normalize_auto: "normalize_version E (VStr ''auto'') = VStr (interpreter_version E)"
  by (simp add: normalize_version_def)

lemma normalize_interpreter_version:
  "normalize_version E (VStr (interpreter_version E)) = VStr (interpreter_version E)"
  using interpreter_version_proper [of E] by (simp add: normalize_version_def)

lemma get_default_unsupported:
  assumes "\<forall>t \<in> set (VALID_PY_TARGETS E). normalize_version E sel \<noteq> VStr t"
  shows "\<exists>m. get_default E sel = Inl (ValueError (PyVersionNotSupported m))"
proof (cases "normalize_version E sel")
  case (VStr v)
  with assms have "v \<notin> set (VALID_PY_TARGETS E)" by auto
  with VStr show ?thesis by (simp add: get_default_def)
qed (simp_all add: get_default_def)

text \<open>
  Claim C3. Version resolution maps the selector \<^verbatim>\<open>auto\<close> to the text of the interpreter's
  major and minor version, so that resolving \<^verbatim>\<open>auto\<close> is resolving that version. For every
  selector that, after normalization, is not among the supported targets, the resolution from
  a path fails with the error of \<^verbatim>\<open>_get_default\<close> (the \<^verbatim>\<open>ValueError\<close> that says the version is
  not supported, which the spec calls the unsupported-version error), whatever the file system
  holds: \<^verbatim>\<open>_get_default\<close> is the first statement of \<^verbatim>\<open>from_path\<close>, and the memoized call stores
  nothing.
\<close>

theorem version_resolution:
  "normalize_version E (VStr ''auto'') = VStr (interpreter_version E)
   \<and> interpreter_version E = str_of_nat (fst (sys_version E)) @ str_of_nat (snd (sys_version E))
   \<and> get_default E (VStr ''auto'') = get_default E (VStr (interpreter_version E))
   \<and> from_path E path (VStr ''auto'') = from_path E path (VStr (interpreter_version E))
   \<and> ((\<forall>t \<in> set (VALID_PY_TARGETS E). normalize_version E sel \<noteq> VStr t) \<longrightarrow>
        (\<exists>m. get_default E sel = Inl (ValueError (PyVersionNotSupported m))
            \<and> from_path E path sel = Inl (ValueError (PyVersionNotSupported m))
            \<and> (hashable sel \<and> map_of (entries c) (path, sel) = None \<longrightarrow>
                 from_path_cached E c path sel
                   = (Inl (ValueError (PyVersionNotSupported m)), c\<lparr>misses := misses c + 1\<rparr>))))"
proof (intro conjI impI)
  show "normalize_version E (VStr ''auto'') = VStr (interpreter_version E)"
    by (rule normalize_auto)
  show "interpreter_version E = str_of_nat (fst (sys_version E)) @ str_of_nat (snd (sys_version E))"
    by (simp add: interpreter_version_def)
  show g: "get_default E (VStr ''auto'') = get_default E (VStr (interpreter_version E))"
    by (simp add: get_default_def normalize_auto normalize_interpreter_version)
  show "from_path E path (VStr ''auto'') = from_path E path (VStr (interpreter_version E))"
    by (simp add: from_path_def g)
next
  assume "\<forall>t \<in> set (VALID_PY_TARGETS E). normalize_version E sel \<noteq> VStr t"
  from get_default_unsupported [OF this]
  obtain m where m: "get_default E sel = Inl (ValueError (PyVersionNotSupported m))" ..
  then have f: "from_path E path sel = Inl (ValueError (PyVersionNotSupported m))"
    by (simp add: from_path_def ebind_def)
  then have "hashable sel \<and> map_of (entries c) (path, sel) = None \<longrightarrow>
                 from_path_cached E c path sel
                   = (Inl (ValueError (PyVersionNotSupported m)), c\<lparr>misses := misses c + 1\<rparr>)"
    by (simp add: from_path_cached_def)
  with m f
  show "\<exists>m. get_default E sel = Inl (ValueError (PyVersionNotSupported m))
            \<and> from_path E path sel = Inl (ValueError (PyVersionNotSupported m))
            \<and> (hashable sel \<and> map_of (entries c) (path, sel) = None \<longrightarrow>
                 from_path_cached E c path sel
                   = (Inl (ValueError (PyVersionNotSupported m)), c\<lparr>misses := misses c + 1\<rparr>))"
    by blast
qed

lemma example_targets: "VALID_PY_TARGETS (example_env fs) = [''all'', ''2'', ''27'', ''3'', ''38'']"
  unfolding VALID_PY_TARGETS_def example_env_def by code_simp

theorem version_resolution_witness:
  "VALID_PY_TARGETS (example_env []) = [''all'', ''2'', ''27'', ''3'', ''38'']
   \<and> normalize_version (example_env []) (VStr ''99'') = VStr ''99''
   \<and> from_path (example_env []) ''/proj'' (VStr ''99'') = Inl (ValueError (PyVersionNotSupported ''99''))
   \<and> from_path_cached (example_env []) empty_cache ''/proj'' (VStr ''99'')
       = (Inl (ValueError (PyVersionNotSupported ''99'')), empty_cache\<lparr>misses := 1\<rparr>)"
proof -
  have n: "normalize_version (example_env []) (VStr ''99'') = VStr ''99''"
    by (simp add: normalize_version_def)
  have h: "\<forall>t \<in> set (VALID_PY_TARGETS (example_env [])).
             normalize_version (example_env []) (VStr ''99'') \<noteq> VStr t"
    by (simp add: n example_targets)
  have g: "get_default (example_env []) (VStr ''99'')
           = Inl (ValueError (PyVersionNotSupported ''99''))"
    by (simp add: get_default_def n example_targets)
  from version_resolution [of "example_env []" "''/proj''" "VStr ''99''" empty_cache] h g
  have "from_path (example_env []) ''/proj'' (VStr ''99'')
          = Inl (ValueError (PyVersionNotSupported ''99''))
   \<and> from_path_cached (example_env []) empty_cache ''/proj'' (VStr ''99'')
       = (Inl (ValueError (PyVersionNotSupported ''99'')), empty_cache\<lparr>misses := 1\<rparr>)"
    by (auto simp: hashable_def empty_cache_def)
  with n show ?thesis by (simp add: example_targets)
qed

section \<open>Properties of the skip predicate\<close>

lemma skip_config_items:
  "dict_item [''skip'' \<mapsto> VList [], ''skip_glob'' \<mapsto> VList [], ''safety_excludes'' \<mapsto> VBool True] ''safety_excludes'' = Inr (VBool True)"
  "dict_item [''skip'' \<mapsto> VList [], ''skip_glob'' \<mapsto> VList [], ''safety_excludes'' \<mapsto> VBool True] ''skip'' = Inr (VList [])"
  "dict_item [''skip'' \<mapsto> VList [], ''skip_glob'' \<mapsto> VList [], ''safety_excludes'' \<mapsto> VBool True] ''skip_glob'' = Inr (VList [])"
  by (simp_all add: dict_item_def)

lemma a_py_facts:
  "path_join ''/proj/.git'' ''a.py'' = ''/proj/.git/a.py''"
  "replace ''/proj/.git/a.py'' [CHR 0x5C] ''/'' = ''/proj/.git/a.py''"
  "replace ''a.py'' [CHR 0x5C] ''/'' = ''a.py''"
  "basename ''/proj/.git'' = ''.git''"
  "safety_exclude_search ''/a.py/'' = False"
  "skip_component (VList []) (path_split ''a.py'') = Inr False"
  by code_simp+

lemma git_facts:
  "replace ''.git'' [CHR 0x5C] ''/'' = ''.git''"
  "basename ''/proj'' = ''proj''"
  "safety_exclude_search ''/.git/'' = True"
  by code_simp+

text \<open>
  Claim C5, amended. With safety excludes enabled and empty skip and skip-glob lists, the skip
  predicate applied to the file name \<^verbatim>\<open>a.py\<close> with the directory \<^verbatim>\<open>/proj/.git\<close> does not match
  the safety denylist, which is searched in the file name between two slashes and not in the
  directory: the predicate returns true exactly when \<^verbatim>\<open>/proj/.git/a.py\<close> is neither an existing
  file nor a directory nor a link. Applied to the name \<^verbatim>\<open>.git\<close> with the directory \<^verbatim>\<open>/proj\<close> it
  returns true by the denylist.
\<close>

theorem skip_predicate_git_directory:
  "file_should_be_skipped E ''a.py''
     [''skip'' \<mapsto> VList [], ''skip_glob'' \<mapsto> VList [], ''safety_excludes'' \<mapsto> VBool True]
     ''/proj/.git''
   = Inr (\<not> (isfile E ''/proj/.git/a.py'' \<or> isdir E ''/proj/.git/a.py''
              \<or> islink E ''/proj/.git/a.py''))
   \<and> file_should_be_skipped E ''.git''
     [''skip'' \<mapsto> VList [], ''skip_glob'' \<mapsto> VList [], ''safety_excludes'' \<mapsto> VBool True]
     ''/proj''
   = Inr True"
proof
  show "file_should_be_skipped E ''a.py''
     [''skip'' \<mapsto> VList [], ''skip_glob'' \<mapsto> VList [], ''safety_excludes'' \<mapsto> VBool True]
     ''/proj/.git''
   = Inr (\<not> (isfile E ''/proj/.git/a.py'' \<or> isdir E ''/proj/.git/a.py''
              \<or> islink E ''/proj/.git/a.py''))"
    by (simp add: file_should_be_skipped_def Let_def a_py_facts skip_config_items
        ebind_def items_of_def skip_exact_def skip_glob_match_def)
  show "file_should_be_skipped E ''.git''
     [''skip'' \<mapsto> VList [], ''skip_glob'' \<mapsto> VList [], ''safety_excludes'' \<mapsto> VBool True]
     ''/proj''
   = Inr True"
    by (simp add: file_should_be_skipped_def Let_def git_facts skip_config_items ebind_def)
qed

text \<open>
  The claim as stated fails when the file exists: the denylist does not match \<^verbatim>\<open>/a.py/\<close>, and
  the predicate returns false.
\<close>

theorem skip_predicate_git_directory_counterexample:
  "file_should_be_skipped (example_env [''/proj/.git/a.py'']) ''a.py''
     [''skip'' \<mapsto> VList [], ''skip_glob'' \<mapsto> VList [], ''safety_excludes'' \<mapsto> VBool True]
     ''/proj/.git''
   = Inr False
   \<and> safety_exclude_search ''/a.py/'' = False"
proof -
  have "file_should_be_skipped (example_env [''/proj/.git/a.py'']) ''a.py''
     [''skip'' \<mapsto> VList [], ''skip_glob'' \<mapsto> VList [], ''safety_excludes'' \<mapsto> VBool True]
     ''/proj/.git''
   = Inr False"
    by (simp add: file_should_be_skipped_def Let_def a_py_facts skip_config_items
        ebind_def items_of_def skip_exact_def skip_glob_match_def example_env_def)
  then show ?thesis by (simp add: a_py_facts)
qed

section \<open>Properties of the configuration record\<close>

lemma post_init_never_returns:
  assumes "dict_get self ''py_version'' \<noteq> VStr ''auto''"
  shows "post_init E self \<noteq> Inr c"
  using assms by (auto simp: post_init_def ebind_def split: sum.splits option.splits)

lemma post_init_unbound:
  assumes "dict_get self ''py_version'' \<noteq> VStr ''auto''"
    and "self ''known_standard_library'' = Some v" and "set_of v = Inr xs"
  shows "post_init E self = Inl (UnboundLocalError ''py_version'')"
  using assms by (simp add: post_init_def ebind_def)

lemma Config_fields_py_version: "map_of Config_fields ''py_version'' = Some (VStr ''3'')"
  by (simp add: Config_fields_def)

lemma Config_fields_known_standard_library:
  "map_of Config_fields ''known_standard_library'' = Some (VList [])"
  by (simp add: Config_fields_def)

lemma Config_new_default: "Config_new E [] = Inl (UnboundLocalError ''py_version'')"
proof -
  have "post_init E (map_of Config_fields) = Inl (UnboundLocalError ''py_version'')"
    by (rule post_init_unbound [where v = "VList []" and xs = "[]"])
       (simp_all add: dict_get_def Config_fields_py_version Config_fields_known_standard_library)
  then show ?thesis by (simp add: Config_new_def)
qed

text \<open>
  Claim C9. Constructing the configuration record with a \<^verbatim>\<open>py_version\<close> other than the text
  \<^verbatim>\<open>auto\<close> never yields an instance; with keywords that are fields and an iterable
  \<^verbatim>\<open>known_standard_library\<close>, as the annotations of the dataclass have them, the constructor
  ends in post-initialization with the unbound-variable error for the local \<^verbatim>\<open>py_version\<close>,
  which is assigned in the \<^verbatim>\<open>auto\<close> branch only. The declared default \<^verbatim>\<open>3\<close> is such a value:
  the constructor without arguments raises the same error.
\<close>

theorem config_py_version_unbound:
  assumes "dict_get (map_of (kwargs @ Config_fields)) ''py_version'' \<noteq> VStr ''auto''"
  shows "(\<forall>c. Config_new E kwargs \<noteq> Inr c)
       \<and> (\<not> list_ex (\<lambda>kv. fst kv \<notin> set (map fst Config_fields)) kwargs
            \<and> set_of (dict_get (map_of (kwargs @ Config_fields)) ''known_standard_library'') = Inr xs
          \<longrightarrow> Config_new E kwargs = Inl (UnboundLocalError ''py_version''))
       \<and> Config_new E [] = Inl (UnboundLocalError ''py_version'')"
proof (intro conjI allI impI)
  fix c
  show "Config_new E kwargs \<noteq> Inr c"
    using post_init_never_returns [OF assms] by (simp add: Config_new_def)
next
  assume h: "\<not> list_ex (\<lambda>kv. fst kv \<notin> set (map fst Config_fields)) kwargs
            \<and> set_of (dict_get (map_of (kwargs @ Config_fields)) ''known_standard_library'') = Inr xs"
  obtain v where v: "map_of (kwargs @ Config_fields) ''known_standard_library'' = Some v"
    using Config_fields_known_standard_library
    by (cases "map_of kwargs ''known_standard_library''") (auto simp: map_add_def)
  with h have "set_of v = Inr xs" by (simp add: dict_get_def)
  from post_init_unbound [OF assms v this] h
  show "Config_new E kwargs = Inl (UnboundLocalError ''py_version'')"
    by (simp add: Config_new_def)
next
  show "Config_new E [] = Inl (UnboundLocalError ''py_version'')"
    by (rule Config_new_default)
qed

theorem config_py_version_unbound_witness:
  "dict_get (map_of ([(''py_version'', VStr ''38''), (''line_length'', VInt 100)] @ Config_fields))
      ''py_version'' = VStr ''38''
   \<and> Config_new (example_env []) [(''py_version'', VStr ''38''), (''line_length'', VInt 100)]
       = Inl (UnboundLocalError ''py_version'')"
proof -
  let ?kw = "[(''py_version'', VStr ''38''), (''line_length'', VInt 100)]"
  have p: "dict_get (map_of (?kw @ Config_fields)) ''py_version'' = VStr ''38''"
    by (simp add: dict_get_def)
  then have a: "dict_get (map_of (?kw @ Config_fields)) ''py_version'' \<noteq> VStr ''auto''"
    by simp
  have k: "\<not> list_ex (\<lambda>kv. fst kv \<notin> set (map fst Config_fields)) ?kw"
    by (simp add: Config_fields_def)
  have s: "set_of (dict_get (map_of (?kw @ Config_fields)) ''known_standard_library'') = Inr []"
    by (simp add: dict_get_def Config_fields_known_standard_library)
  from config_py_version_unbound [OF a, where xs = "[]" and E = "example_env []"] k s
  have "Config_new (example_env []) ?kw = Inl (UnboundLocalError ''py_version'')"
    by blast
  with p show ?thesis by simp
qed

section \<open>Properties of the config file locator\<close>

lemma first_existing_find:
  "first_existing E ds =
     map_option (expanduser E) (List.find (\<lambda>p. path_exists E (expanduser E p)) ds)"
  by (induction ds) (simp_all add: Let_def)

lemma length_search_directories: "length (search_directories n d) \<le> n"
  by (induction n arbitrary: d) simp_all

lemma walk_up_find:
  "tries \<le> MAX_CONFIG_SEARCH_DEPTH \<Longrightarrow>
   walk_up E name d tries cand =
     (case List.find (\<lambda>d'. path_exists E (path_join d' name))
             (search_directories (MAX_CONFIG_SEARCH_DEPTH - tries) d) of
        Some d' \<Rightarrow> Some (path_join d' name)
      | None \<Rightarrow> cand)"
proof (induction E name d tries cand rule: walk_up.induct)
  case (1 E name d tries cand)
  show ?case
  proof (cases "d \<noteq> [] \<and> tries < MAX_CONFIG_SEARCH_DEPTH")
    case False
    with "1.prems" have "d = [] \<or> MAX_CONFIG_SEARCH_DEPTH - tries = 0" by auto
    then have "search_directories (MAX_CONFIG_SEARCH_DEPTH - tries) d = []"
      by (cases "MAX_CONFIG_SEARCH_DEPTH - tries") auto
    with False show ?thesis
      by (subst walk_up.simps) auto
  next
    case True
    then obtain n where n: "MAX_CONFIG_SEARCH_DEPTH - tries = Suc n"
      "MAX_CONFIG_SEARCH_DEPTH - Suc tries = n"
      by (cases "MAX_CONFIG_SEARCH_DEPTH - tries") auto
    show ?thesis
    proof (cases "path_exists E (path_join d name)")
      case found: True
      with True n show ?thesis
        by (subst walk_up.simps) simp
    next
      case not_found: False
      show ?thesis
      proof (cases "d = fst (path_split d)")
        case root: True
        with True n not_found show ?thesis
          by (subst walk_up.simps) (simp add: Let_def)
      next
        case up: False
        from True have "tries + 1 \<le> MAX_CONFIG_SEARCH_DEPTH" by simp
        from "1.IH" [OF True refl not_found refl up this]
        have "walk_up E name (fst (path_split d)) (tries + 1) cand =
          (case List.find (\<lambda>d'. path_exists E (path_join d' name))
                  (search_directories n (fst (path_split d))) of
             Some d' \<Rightarrow> Some (path_join d' name)
           | None \<Rightarrow> cand)"
          by (simp add: n)
        with True n not_found up show ?thesis
          by (subst walk_up.simps) (auto simp add: Let_def)
      qed
    qed
  qed
qed

lemma locate_find:
  "locate E path name fallbacks =
     (case List.find (\<lambda>d. path_exists E (path_join d name))
             (search_directories MAX_CONFIG_SEARCH_DEPTH path) of
        Some d \<Rightarrow> Some (path_join d name)
      | None \<Rightarrow> first_existing E fallbacks)"
  by (simp add: locate_def walk_up_find)

lemma first_existing_reader:
  "first_existing (E\<lparr>get_config_data := reader\<rparr>) fallbacks = first_existing E fallbacks"
  by (simp add: first_existing_find)

lemma locate_reader:
  "locate (E\<lparr>get_config_data := reader\<rparr>) path name fallbacks = locate E path name fallbacks"
  unfolding locate_find first_existing_reader by simp

lemma update_settings_nothing_found:
  "locate E path name fallbacks = None \<Longrightarrow>
   update_settings_with_config E path name fallbacks sections acc = Inr acc"
  by (simp add: update_settings_with_config_def)

lemma example_env_fs:
  "path_exists (example_env fs) p = (p \<in> set fs)"
  "expanduser (example_env fs) ''~/.isort.cfg'' = ''/home/user/.isort.cfg''"
  "expanduser (example_env fs) ''~/.editorconfig'' = ''/home/user/.editorconfig''"
  by (simp_all add: example_env_def startswith_def)

text \<open>
  Claim C6. The locator takes as candidate the first fallback path that exists, each expanded
  for the user's home; it then probes the start path and its parents in turn for the file
  name, and a file found there is the result in the place of the candidate. The directories
  probed are those of \<^const>\<open>search_directories\<close>: at most 25, and none beyond a directory whose
  parent is itself. When nothing is found, the update returns the accumulator as it was, and
  does so whatever the reader of config files would do: no file is read and nothing is raised.
\<close>

theorem locator_search:
  "first_existing E fallbacks =
     map_option (expanduser E) (List.find (\<lambda>p. path_exists E (expanduser E p)) fallbacks)
   \<and> locate E path name fallbacks =
       (case List.find (\<lambda>d. path_exists E (path_join d name))
               (search_directories MAX_CONFIG_SEARCH_DEPTH path) of
          Some d \<Rightarrow> Some (path_join d name)
        | None \<Rightarrow> first_existing E fallbacks)
   \<and> length (search_directories MAX_CONFIG_SEARCH_DEPTH path) \<le> 25
   \<and> (d \<noteq> [] \<and> fst (path_split d) = d \<longrightarrow> search_directories (Suc n) d = [d])
   \<and> (locate E path name fallbacks = None \<longrightarrow>
        (\<forall>reader. update_settings_with_config (E\<lparr>get_config_data := reader\<rparr>)
                    path name fallbacks sections acc = Inr acc))"
proof (intro conjI impI allI)
  show "length (search_directories MAX_CONFIG_SEARCH_DEPTH path) \<le> 25"
    using length_search_directories [of MAX_CONFIG_SEARCH_DEPTH path]
    by (simp add: MAX_CONFIG_SEARCH_DEPTH_def)
next
  fix reader
  assume "locate E path name fallbacks = None"
  then have "locate (E\<lparr>get_config_data := reader\<rparr>) path name fallbacks = None"
    by (simp add: locate_reader)
  then show "update_settings_with_config (E\<lparr>get_config_data := reader\<rparr>)
                    path name fallbacks sections acc = Inr acc"
    by (rule update_settings_nothing_found)
qed (simp_all add: first_existing_find locate_find)


theorem locator_search_witness:
  "locate (example_env []) ''/proj/src'' ''.isort.cfg'' [''~/.isort.cfg''] = None
   \<and> update_settings_with_config
        ((example_env [])\<lparr>get_config_data := (\<lambda>f s. Inl (ReaderError ''unreadable''))\<rparr>)
        ''/proj/src'' ''.isort.cfg'' [''~/.isort.cfg''] [''settings'', ''isort''] default
       = Inr default
   \<and> search_directories MAX_CONFIG_SEARCH_DEPTH ''/proj/src'' = [''/proj/src'', ''/proj'', ''/'']
   \<and> locate (example_env [''/home/user/.isort.cfg'', ''/proj/.isort.cfg''])
        ''/proj/src'' ''.isort.cfg'' [''~/.isort.cfg''] = Some ''/proj/.isort.cfg''
   \<and> locate (example_env [''/home/user/.isort.cfg''])
        ''/proj/src'' ''.isort.cfg'' [''~/.isort.cfg''] = Some ''/home/user/.isort.cfg''"
proof -
  have sd: "search_directories MAX_CONFIG_SEARCH_DEPTH ''/proj/src''
            = [''/proj/src'', ''/proj'', ''/'']"
    by code_simp
  have pj: "path_join ''/proj/src'' ''.isort.cfg'' = ''/proj/src/.isort.cfg''"
    "path_join ''/proj'' ''.isort.cfg'' = ''/proj/.isort.cfg''"
    "path_join ''/'' ''.isort.cfg'' = ''/.isort.cfg''"
    by code_simp+
  note t = locator_search [where path = "''/proj/src''" and name = "''.isort.cfg''"
      and fallbacks = "[''~/.isort.cfg'']"]
  from t [where E = "example_env []", THEN conjunct2, THEN conjunct1]
  have a: "locate (example_env []) ''/proj/src'' ''.isort.cfg'' [''~/.isort.cfg''] = None"
    by (simp add: sd pj example_env_fs)
  from t [where E = "example_env []" and sections = "[''settings'', ''isort'']" and acc = default,
      THEN conjunct2, THEN conjunct2, THEN conjunct2, THEN conjunct2] a
  have b: "update_settings_with_config
        ((example_env [])\<lparr>get_config_data := (\<lambda>f s. Inl (ReaderError ''unreadable''))\<rparr>)
        ''/proj/src'' ''.isort.cfg'' [''~/.isort.cfg''] [''settings'', ''isort''] default
       = Inr default"
    by blast
  from t [where E = "example_env [''/home/user/.isort.cfg'', ''/proj/.isort.cfg'']",
      THEN conjunct2, THEN conjunct1]
  have c: "locate (example_env [''/home/user/.isort.cfg'', ''/proj/.isort.cfg''])
        ''/proj/src'' ''.isort.cfg'' [''~/.isort.cfg''] = Some ''/proj/.isort.cfg''"
    by (simp add: sd pj example_env_fs)
  from t [where E = "example_env [''/home/user/.isort.cfg'']", THEN conjunct2, THEN conjunct1]
  have d: "locate (example_env [''/home/user/.isort.cfg''])
        ''/proj/src'' ''.isort.cfg'' [''~/.isort.cfg''] = Some ''/home/user/.isort.cfg''"
    by (simp add: sd pj example_env_fs)
  from a b sd c d show ?thesis by (intro conjI)
qed

section \<open>Properties of the resolution from a path\<close>

lemma locate_no_files:
  assumes "\<And>p. \<not> path_exists E p"
  shows "locate E path name fallbacks = None"
proof -
  have "List.find (\<lambda>d. path_exists E (path_join d name))
          (search_directories MAX_CONFIG_SEARCH_DEPTH path) = None"
    using assms by (simp add: find_None_iff)
  moreover have "List.find (\<lambda>p. path_exists E (expanduser E p)) fallbacks = None"
    using assms by (simp add: find_None_iff)
  ultimately show ?thesis
    by (simp add: locate_find first_existing_find)
qed

lemma from_path_no_files:
  assumes "locate E path ''.editorconfig'' [''~/.editorconfig''] = None"
    and "locate E path ''pyproject.toml'' [] = None"
    and "locate E path ''.isort.cfg'' (isort_defaults E) = None"
    and "locate E path ''setup.cfg'' [] = None"
    and "locate E path ''tox.ini'' [] = None"
  shows "from_path E path py_version = get_default E py_version"
  using assms
  by (cases "get_default E py_version")
     (simp_all add: from_path_def ebind_def update_settings_nothing_found)

lemma get_default_supported:
  assumes "normalize_version E py_version = VStr v"
    and "v \<in> set (VALID_PY_TARGETS E)"
    and "map_of (stdlibs E) (if v \<noteq> ''all'' then ''py'' @ v else v) = Some stdlib"
  shows "get_default E py_version = Inr (default(''known_standard_library'' \<mapsto> VSet stdlib))"
  using assms by (simp add: get_default_def Let_def)

lemma from_path_cached_miss:
  assumes "hashable py_version" and "map_of (entries c) (path, py_version) = None"
    and "from_path E path py_version = Inr r"
  shows "from_path_cached E c path py_version =
           (Inr r, c\<lparr>entries := take 128 (((path, py_version), r) # entries c),
                     misses := misses c + 1\<rparr>)"
  using assms by (simp add: from_path_cached_def)

lemma from_path_cached_hit:
  assumes "hashable py_version" and "map_of (entries c) (path, py_version) = Some r"
  shows "from_path_cached E c path py_version =
           (Inr r, c\<lparr>entries := ((path, py_version), r)
                       # filter (\<lambda>e. fst e \<noteq> (path, py_version)) (entries c),
                     hits := hits c + 1\<rparr>)"
  using assms by (simp add: from_path_cached_def)

text \<open>
  Claim C8. When the locator finds no file of any of the five kinds (fallback locations
  included) and the selector resolves to a supported version, the resolution returns the
  Default Table with \<^verbatim>\<open>known_standard_library\<close> set to the standard-library set of that version.
  A first memoized call with these arguments is a miss and returns this result; a second call
  with the same arguments returns the same result as a hit, without a further miss, whatever
  the environment is by then.
\<close>

theorem no_config_files_defaults_cached:
  assumes "locate E path ''.editorconfig'' [''~/.editorconfig''] = None"
    and "locate E path ''pyproject.toml'' [] = None"
    and "locate E path ''.isort.cfg'' (isort_defaults E) = None"
    and "locate E path ''setup.cfg'' [] = None"
    and "locate E path ''tox.ini'' [] = None"
    and "normalize_version E py_version = VStr v"
    and "v \<in> set (VALID_PY_TARGETS E)"
    and "map_of (stdlibs E) (if v \<noteq> ''all'' then ''py'' @ v else v) = Some stdlib"
    and "hashable py_version"
    and "map_of (entries c) (path, py_version) = None"
    and "first_call = from_path_cached E c path py_version"
    and "second_call = from_path_cached E' (snd first_call) path py_version"
  shows "from_path E path py_version = Inr (default(''known_standard_library'' \<mapsto> VSet stdlib))
       \<and> fst first_call = Inr (default(''known_standard_library'' \<mapsto> VSet stdlib))
       \<and> misses (snd first_call) = misses c + 1
       \<and> hits (snd first_call) = hits c
       \<and> fst second_call = fst first_call
       \<and> hits (snd second_call) = hits (snd first_call) + 1
       \<and> misses (snd second_call) = misses (snd first_call)"
proof -
  let ?r = "default(''known_standard_library'' \<mapsto> VSet stdlib)"
  have r: "from_path E path py_version = Inr ?r"
    using assms(1-8) by (simp add: from_path_no_files get_default_supported)
  note first = from_path_cached_miss [OF assms(9,10) r]
  let ?c1 = "c\<lparr>entries := take 128 (((path, py_version), ?r) # entries c),
                misses := misses c + 1\<rparr>"
  have "map_of (entries ?c1) (path, py_version) = Some ?r" by simp
  note second = from_path_cached_hit [OF assms(9) this, of E']
  from r first second assms(11,12) show ?thesis by simp
qed

theorem no_config_files_defaults_cached_witness:
  "from_path (example_env []) ''/proj'' VNone
     = Inr (default(''known_standard_library'' \<mapsto> VSet [''os'', ''sys'']))
   \<and> fst (from_path_cached (example_env []) empty_cache ''/proj'' VNone)
     = Inr (default(''known_standard_library'' \<mapsto> VSet [''os'', ''sys'']))
   \<and> fst (from_path_cached (example_env [''/proj/setup.cfg''])
            (snd (from_path_cached (example_env []) empty_cache ''/proj'' VNone)) ''/proj'' VNone)
     = Inr (default(''known_standard_library'' \<mapsto> VSet [''os'', ''sys'']))
   \<and> hits (snd (from_path_cached (example_env [''/proj/setup.cfg''])
            (snd (from_path_cached (example_env []) empty_cache ''/proj'' VNone)) ''/proj'' VNone))
     = 1"
proof -
  let ?E = "example_env []"
  have nf: "\<And>p. \<not> path_exists ?E p" by (simp add: example_env_fs)
  have n: "normalize_version ?E VNone = VStr ''3''" by (simp add: normalize_version_def)
  have t: "''3'' \<in> set (VALID_PY_TARGETS ?E)" by (simp add: example_targets)
  have s: "map_of (stdlibs ?E) (if ''3'' \<noteq> ''all'' then ''py'' @ ''3'' else ''3'')
           = Some [''os'', ''sys'']"
    by (simp add: example_env_def)
  have h: "hashable VNone" by (simp add: hashable_def)
  have f: "map_of (entries empty_cache) (''/proj'', VNone) = None" by (simp add: empty_cache_def)
  from no_config_files_defaults_cached [OF locate_no_files [OF nf] locate_no_files [OF nf]
      locate_no_files [OF nf] locate_no_files [OF nf] locate_no_files [OF nf] n t s h f refl refl,
      of "example_env [''/proj/setup.cfg'']"]
  show ?thesis by (simp add: empty_cache_def)
qed

section \<open>Properties of the override applicator\<close>

lemma expand_force_alphabetical_sort_result:
  assumes "expand_force_alphabetical_sort config1 = Inr config2"
    and "truthy (dict_get config2 ''force_alphabetical_sort'')"
  shows "config2 ''force_alphabetical_sort_within_sections'' = Some (VBool True)
       \<and> config2 ''no_sections'' = Some (VBool True)
       \<and> config2 ''lines_between_types'' = Some (VInt 1)
       \<and> config2 ''from_first'' = Some (VBool True)"
  using assms
  by (auto simp: expand_force_alphabetical_sort_def dict_item_def dict_get_def ebind_def
      split: option.splits if_splits)

lemma prepare_indent_frame:
  assumes "prepare_indent E config = Inr config'" and "k \<noteq> ''indent''"
  shows "config' k = config k"
  using assms
  by (auto simp: prepare_indent_def dict_item_def ebind_def Let_def
      split: option.splits if_splits)

lemma prepare_comment_prefix_frame:
  assumes "prepare_comment_prefix config = Inr config'" and "k \<noteq> ''comment_prefix''"
  shows "config' k = config k"
  using assms
  by (auto simp: prepare_comment_prefix_def dict_item_def ebind_def
      split: option.splits pyval.splits)

lemma prepare_config_stages:
  assumes "prepare_config E c settings_path setting_overrides = (Inr config, c')"
  shows "\<exists>config1 config2 config3.
           expand_force_alphabetical_sort config1 = Inr config2
         \<and> prepare_indent E config2 = Inr config3
         \<and> prepare_comment_prefix config3 = Inr config"
  using assms
  by (auto simp: prepare_config_def Let_def ebind_def split: sum.splits)

text \<open>
  Claim C4. Whenever the configuration that the override applicator returns has a true
  \<^verbatim>\<open>force_alphabetical_sort\<close>, it has \<^verbatim>\<open>force_alphabetical_sort_within_sections\<close> true,
  \<^verbatim>\<open>no_sections\<close> true, \<^verbatim>\<open>lines_between_types\<close> 1 and \<^verbatim>\<open>from_first\<close> true, whatever the overrides of
  the same call are: the expansion is written after the loop over the overrides, and the later
  steps change \<^verbatim>\<open>indent\<close> and \<^verbatim>\<open>comment_prefix\<close> only.
\<close>

theorem force_alphabetical_sort_expansion:
  assumes "prepare_config E c settings_path setting_overrides = (Inr config, c')"
    and "truthy (dict_get config ''force_alphabetical_sort'')"
  shows "config ''force_alphabetical_sort_within_sections'' = Some (VBool True)
       \<and> config ''no_sections'' = Some (VBool True)
       \<and> config ''lines_between_types'' = Some (VInt 1)
       \<and> config ''from_first'' = Some (VBool True)"
proof -
  from prepare_config_stages [OF assms(1)]
  obtain config1 config2 config3 where
    e: "expand_force_alphabetical_sort config1 = Inr config2"
    and i: "prepare_indent E config2 = Inr config3"
    and p: "prepare_comment_prefix config3 = Inr config"
    by blast
  have same: "config k = config2 k" if "k \<noteq> ''indent''" "k \<noteq> ''comment_prefix''" for k
    using prepare_comment_prefix_frame [OF p that(2)] prepare_indent_frame [OF i that(1)]
    by simp
  from assms(2) have "truthy (dict_get config2 ''force_alphabetical_sort'')"
    by (simp add: dict_get_def same)
  from expand_force_alphabetical_sort_result [OF e this] show ?thesis
    by (simp add: same)
qed


lemma override_key_scalar:
  assumes "lower (replace key ''not_'' []) = ak"
    and "type_of (dict_get config ak) \<notin> set [TList, TTuple, TSet]"
  shows "override_key E config (key, v) = Inr (config(key \<mapsto> v))"
  using assms by (simp add: override_key_def Let_def)

lemma default_scalars:
  "default ''force_alphabetical_sort'' = Some (VBool False)"
  "default ''no_sections'' = Some (VBool False)"
  "default ''lines_between_types'' = Some (VInt 0)"
  "default ''indent'' = Some (VStr ''    '')"
  "default ''comment_prefix'' = Some (VStr ''  #'')"
  by (simp_all add: default_def default_items_def)

lemma override_access_keys:
  "lower (replace ''force_alphabetical_sort'' ''not_'' []) = ''force_alphabetical_sort''"
  "lower (replace ''no_sections'' ''not_'' []) = ''no_sections''"
  "lower (replace ''lines_between_types'' ''not_'' []) = ''lines_between_types''"
  by code_simp+

lemma default_text_processing:
  "isdigit ''    '' = False"
  "strip_chars (strip_chars ''    '' [CHR 0x27]) [CHR 0x22] = ''    ''"
  "lower ''    '' = ''    ''"
  "strip_chars (strip_chars ''  #'' [CHR 0x27]) [CHR 0x22] = ''  #''"
  by code_simp+

theorem force_alphabetical_sort_expansion_witness:
  "\<exists>config c'.
      prepare_config (example_env []) empty_cache ''/proj''
        [(''force_alphabetical_sort'', VBool True), (''no_sections'', VBool False),
         (''lines_between_types'', VInt 5)] = (Inr config, c')
    \<and> truthy (dict_get config ''force_alphabetical_sort'')
    \<and> config ''no_sections'' = Some (VBool True)
    \<and> config ''lines_between_types'' = Some (VInt 1)"
proof -
  let ?E = "example_env []"
  let ?ovs = "[(''force_alphabetical_sort'', VBool True), (''no_sections'', VBool False),
         (''lines_between_types'', VInt 5)]"
  let ?d0 = "default(''known_standard_library'' \<mapsto> VSet [''os'', ''sys''])"
  have nf: "\<And>p. \<not> path_exists ?E p" by (simp add: example_env_fs)
  have n: "normalize_version ?E VNone = VStr ''3''" by (simp add: normalize_version_def)
  have t: "''3'' \<in> set (VALID_PY_TARGETS ?E)" by (simp add: example_targets)
  have s: "map_of (stdlibs ?E) (if ''3'' \<noteq> ''all'' then ''py'' @ ''3'' else ''3'')
           = Some [''os'', ''sys'']"
    by (simp add: example_env_def)
  have g: "get_default ?E VNone = Inr ?d0"
    by (rule get_default_supported [OF n t s])
  have fp: "from_path ?E ''/proj'' VNone = Inr ?d0"
    by (simp add: from_path_no_files locate_no_files [OF nf] g)
  have fc: "fst (from_path_cached ?E empty_cache ''/proj'' VNone) = Inr ?d0"
    by (subst from_path_cached_miss [OF _ _ fp]) (simp_all add: hashable_def empty_cache_def)
  let ?d1 = "?d0(''force_alphabetical_sort'' \<mapsto> VBool True)"
  let ?d2 = "?d1(''no_sections'' \<mapsto> VBool False)"
  let ?d3 = "?d2(''lines_between_types'' \<mapsto> VInt 5)"
  have o1: "override_key ?E ?d0 (''force_alphabetical_sort'', VBool True) = Inr ?d1"
    by (rule override_key_scalar [OF override_access_keys(1)])
       (simp add: dict_get_def default_scalars)
  have o2: "override_key ?E ?d1 (''no_sections'', VBool False) = Inr ?d2"
    by (rule override_key_scalar [OF override_access_keys(2)])
       (simp add: dict_get_def default_scalars)
  have o3: "override_key ?E ?d2 (''lines_between_types'', VInt 5) = Inr ?d3"
    by (rule override_key_scalar [OF override_access_keys(3)])
       (simp add: dict_get_def default_scalars)
  have ov: "override_keys ?E ?d0 ?ovs = Inr ?d3"
    by (simp add: o1 o2 o3)
  let ?d4 = "?d3(''force_alphabetical_sort_within_sections'' \<mapsto> VBool True,
                 ''no_sections'' \<mapsto> VBool True,
                 ''lines_between_types'' \<mapsto> VInt 1,
                 ''from_first'' \<mapsto> VBool True)"
  have ex: "expand_force_alphabetical_sort ?d3 = Inr ?d4"
    by (simp add: expand_force_alphabetical_sort_def dict_item_def ebind_def)
  have pi: "prepare_indent ?E ?d4 = Inr (?d4(''indent'' \<mapsto> VStr ''    ''))"
    by (simp add: prepare_indent_def dict_item_def ebind_def default_scalars
        default_text_processing Let_def)
  have pc: "prepare_comment_prefix (?d4(''indent'' \<mapsto> VStr ''    ''))
            = Inr (?d4(''indent'' \<mapsto> VStr ''    '', ''comment_prefix'' \<mapsto> VStr ''  #''))"
    by (simp add: prepare_comment_prefix_def dict_item_def ebind_def default_scalars
        default_text_processing)
  have pv: "(case map_of ?ovs ''py_version'' of None \<Rightarrow> VNone | Some v \<Rightarrow> v) = VNone"
    by simp
  have fl: "filter (\<lambda>kv. fst kv \<noteq> ''py_version'') ?ovs = ?ovs"
    by simp
  have "fst (prepare_config ?E empty_cache ''/proj'' ?ovs)
        = Inr (?d4(''indent'' \<mapsto> VStr ''    '', ''comment_prefix'' \<mapsto> VStr ''  #''))"
    unfolding prepare_config_def Let_def pv fl fst_conv fc ebind_def sum.case ov ex pi pc
    by (rule refl)
  then obtain config c' where
    r: "prepare_config ?E empty_cache ''/proj'' ?ovs = (Inr config, c')"
    and cfg: "config = ?d4(''indent'' \<mapsto> VStr ''    '', ''comment_prefix'' \<mapsto> VStr ''  #'')"
    by (cases "prepare_config ?E empty_cache ''/proj'' ?ovs") auto
  have tr: "truthy (dict_get config ''force_alphabetical_sort'')"
    by (simp add: cfg dict_get_def)
  from force_alphabetical_sort_expansion [OF r tr] r tr show ?thesis by blast
qed

end
